theory Spec2Isabelle
  imports Complex_Main "HOL-Library.List_Lexorder" "HOL-Library.Char_ord"
begin

section \<open>JavaScript values\<close>

text \<open>
  The library builds plain JavaScript data: primitives, \<open>Date\<close> objects, arrays and
  objects. An array or an object is a tree node that carries its own frozen flag (what
  \<open>Object.isFrozen\<close> reports) and, for an object, its own enumerable properties in
  enumeration order. Property names are taken not to be array-index-like, so that
  enumeration order is insertion order. Numbers are the finite ones, as reals; a
  \<open>Date\<close> is its millisecond timestamp, and a timestamp beyond the 8.64e15
  milliseconds a \<open>Date\<close> can hold stands for an invalid \<open>Date\<close>.
\<close>

datatype jsval =
    JUndefined
  | JNull
  | JBool bool
  | JNum real
  | JStr string
  | JDate int
  | JArr bool "jsval list"
  | JObj bool "(string \<times> jsval) list"

abbreviation arr :: "jsval list \<Rightarrow> jsval" where
  "arr xs \<equiv> JArr False xs"

abbreviation obj :: "(string \<times> jsval) list \<Rightarrow> jsval" where
  "obj kvs \<equiv> JObj False kvs"

datatype error = TypeError | Error string

type_synonym 'a result = "error + 'a"

definition and_then :: "'a result \<Rightarrow> ('a \<Rightarrow> 'b result) \<Rightarrow> 'b result" where
  "and_then m f = (case m of Inl e \<Rightarrow> Inl e | Inr x \<Rightarrow> f x)"

text \<open>Truthiness, as \<open>c ? a : b\<close>, \<open>!c\<close> and \<open>a || b\<close> test it.\<close>

fun truthy :: "jsval \<Rightarrow> bool" where
  "truthy JUndefined = False"
| "truthy JNull = False"
| "truthy (JBool b) = b"
| "truthy (JNum x) = (x \<noteq> 0)"
| "truthy (JStr s) = (s \<noteq> [])"
| "truthy _ = True"

definition or_else :: "jsval \<Rightarrow> jsval \<Rightarrow> jsval" where
  "or_else a b = (if truthy a then a else b)"

text \<open>\<open>typeof v === 'object' && v !== null\<close>\<close>

fun is_object :: "jsval \<Rightarrow> bool" where
  "is_object (JDate t) = True"
| "is_object (JArr f xs) = True"
| "is_object (JObj f kvs) = True"
| "is_object _ = False"

text \<open>Decimal rendering of a natural number, as a template literal prints it.\<close>

definition digit_char :: "nat \<Rightarrow> char" where
  "digit_char d = ''0123456789'' ! d"

fun decimal :: "nat \<Rightarrow> string" where
  "decimal n = (if n < 10 then [digit_char n]
                else decimal (n div 10) @ [digit_char (n mod 10)])"

declare decimal.simps [simp del]

text \<open>
  The own enumerable string-keyed properties of a value: what object spread and
  \<open>Object.entries\<close> enumerate. An array has its elements under their indices, a string
  its characters; a \<open>Date\<close> and the other primitives have none.
\<close>

definition indexed :: "jsval list \<Rightarrow> (string \<times> jsval) list" where
  "indexed xs = zip (map decimal [0..<length xs]) xs"

fun own_props :: "jsval \<Rightarrow> (string \<times> jsval) list" where
  "own_props (JObj f kvs) = kvs"
| "own_props (JArr f xs) = indexed xs"
| "own_props (JStr s) = indexed (map (\<lambda>c. JStr [c]) s)"
| "own_props _ = []"

text \<open>\<open>o[k] = v\<close> on the property list of a fresh object literal.\<close>

fun set_prop :: "string \<Rightarrow> jsval \<Rightarrow> (string \<times> jsval) list \<Rightarrow> (string \<times> jsval) list" where
  "set_prop k v [] = [(k, v)]"
| "set_prop k v ((k', v') # kvs) =
     (if k = k' then (k, v) # kvs else (k', v') # set_prop k v kvs)"

text \<open>\<open>{ ...a, ...b }\<close>: the properties of \<open>a\<close>, then each property of \<open>b\<close> assigned.\<close>

definition spread_into :: "(string \<times> jsval) list \<Rightarrow> (string \<times> jsval) list \<Rightarrow> (string \<times> jsval) list" where
  "spread_into kvs extra = foldl (\<lambda>acc (k, v). set_prop k v acc) kvs extra"

text \<open>
  Reading \<open>v.k\<close>: a TypeError on \<open>undefined\<close> and \<open>null\<close>, the property's value or
  \<open>undefined\<close> otherwise (inherited properties are left out).
\<close>

definition lookup_prop :: "(string \<times> jsval) list \<Rightarrow> string \<Rightarrow> jsval" where
  "lookup_prop kvs k = (case map_of kvs k of None \<Rightarrow> JUndefined | Some v \<Rightarrow> v)"

fun get_prop :: "jsval \<Rightarrow> string \<Rightarrow> jsval result" where
  "get_prop JUndefined k = Inl TypeError"
| "get_prop JNull k = Inl TypeError"
| "get_prop (JObj f kvs) k = Inr (lookup_prop kvs k)"
| "get_prop (JArr f xs) k =
     Inr (if k = ''length'' then JNum (real (length xs)) else lookup_prop (indexed xs) k)"
| "get_prop (JStr s) k =
     Inr (if k = ''length'' then JNum (real (length s))
          else lookup_prop (indexed (map (\<lambda>c. JStr [c]) s)) k)"
| "get_prop v k = Inr JUndefined"

text \<open>Optional chaining \<open>v?.k\<close>.\<close>

fun get_prop_opt :: "jsval \<Rightarrow> string \<Rightarrow> jsval" where
  "get_prop_opt JUndefined k = JUndefined"
| "get_prop_opt JNull k = JUndefined"
| "get_prop_opt v k = (case get_prop v k of Inl e \<Rightarrow> JUndefined | Inr x \<Rightarrow> x)"

text \<open>\<open>'k' in v\<close> for a value that passed the \<open>typeof v === 'object'\<close> test.\<close>

definition has_prop :: "jsval \<Rightarrow> string \<Rightarrow> bool" where
  "has_prop v k = (k \<in> set (map fst (own_props v)))"

text \<open>\<open>Object.entries(v)\<close>, and the destructuring that takes the key and value of its first entry.\<close>

fun Object_entries :: "jsval \<Rightarrow> (string \<times> jsval) list result" where
  "Object_entries JUndefined = Inl TypeError"
| "Object_entries JNull = Inl TypeError"
| "Object_entries v = Inr (own_props v)"

definition first_entry :: "jsval \<Rightarrow> (string \<times> jsval) result" where
  "first_entry v =
     and_then (Object_entries v) (\<lambda>es. case es of [] \<Rightarrow> Inl TypeError | e # _ \<Rightarrow> Inr e)"

text \<open>\<open>Object.freeze\<close> freezes the object it is given and nothing below it.\<close>

fun Object_freeze :: "jsval \<Rightarrow> jsval" where
  "Object_freeze (JArr f xs) = JArr True xs"
| "Object_freeze (JObj f kvs) = JObj True kvs"
| "Object_freeze v = v"

section \<open>The base class Query\<close>

text \<open>
  \<open>Query._deepClone\<close>, on the values whose objects have no own property named
  \<open>hasOwnProperty\<close> or \<open>__proto__\<close>. On an object with an own \<open>hasOwnProperty\<close>
  the call \<open>obj.hasOwnProperty(key)\<close> of the source throws, and an own \<open>__proto__\<close>
  is assigned to the prototype of the copy and is not copied; these two names are not
  modelled. A statement that hands a caller's property name to a constructor assumes
  \<open>ordinary_key\<close> of it.
\<close>

definition ordinary_key :: "string \<Rightarrow> bool" where
  "ordinary_key k \<longleftrightarrow> k \<noteq> ''__proto__'' \<and> k \<noteq> ''hasOwnProperty''"

fun deepClone :: "jsval \<Rightarrow> jsval" where
  "deepClone (JDate t) = JDate t"
| "deepClone (JArr f xs) = JArr False (map deepClone xs)"
| "deepClone (JObj f kvs) = JObj False (map (\<lambda>(k, v). (k, deepClone v)) kvs)"
| "deepClone v = v"

record operation =
  op_method :: string
  op_args :: "jsval list"
  op_timestamp :: nat
  op_id :: string

record metadata =
  md_id :: string
  md_operations :: "operation list"
  md_created :: nat
  md_source :: "string option"

text \<open>The optional constructor argument \<open>Partial<QueryMetadata>\<close>.\<close>

record partial_metadata =
  pm_id :: "string option"
  pm_operations :: "operation list option"
  pm_created :: "nat option"
  pm_source :: "string option"

text \<open>
  The classes of the instances. The anonymous subclasses that the \<open>clone\<close> methods
  create override \<open>toJSON\<close> to hand back a captured value.
\<close>

datatype kind =
    TermQuery | BoolQuery | RangeQuery | NestedQuery | DisMaxQuery | BoostingQuery
  | Anonymous jsval

record query =
  q_kind :: kind
  q_body :: jsval
  q_metadata :: metadata

text \<open>
  The state of the process: the module variable \<open>queryIdCounter\<close>, the instances
  allocated so far (an instance's reference is its address), and the environment:
  what \<open>Date.now()\<close> and \<open>Math.random().toString(36).substr(2, 9)\<close> answer at each read.
\<close>

record world =
  queryIdCounter :: nat
  store :: "nat \<Rightarrow> query"
  next_ref :: nat
  ticks :: nat
  date_now :: "nat \<Rightarrow> nat"
  math_random :: "nat \<Rightarrow> string"

definition Date_now :: "world \<Rightarrow> nat \<times> world" where
  "Date_now w = (date_now w (ticks w), w\<lparr>ticks := Suc (ticks w)\<rparr>)"

definition Math_random_text :: "world \<Rightarrow> string \<times> world" where
  "Math_random_text w = (math_random w (ticks w), w\<lparr>ticks := Suc (ticks w)\<rparr>)"

definition generateId :: "world \<Rightarrow> string \<times> world" where
  "generateId w =
     (let n = Suc (queryIdCounter w);
          w1 = w\<lparr>queryIdCounter := n\<rparr>;
          (t, w2) = Date_now w1
      in (''q_'' @ decimal n @ ''_'' @ decimal t, w2))"

definition generateOperationId :: "world \<Rightarrow> string \<times> world" where
  "generateOperationId w =
     (let (t, w1) = Date_now w;
          (r, w2) = Math_random_text w1
      in (''op_'' @ decimal t @ ''_'' @ r, w2))"

text \<open>
  \<open>new C(...)\<close> reaching the constructor of \<open>Query\<close> with class \<open>C\<close>: the body is
  cloned and frozen, the metadata filled in, and the instance gets the next address.
\<close>

definition Query_constructor ::
  "kind \<Rightarrow> jsval \<Rightarrow> partial_metadata option \<Rightarrow> world \<Rightarrow> nat \<times> world" where
  "Query_constructor c body metadata w =
     (let b = Object_freeze (deepClone body);
          (i, w1) = (case Option.bind metadata pm_id of
                       Some i \<Rightarrow> (i, w) | None \<Rightarrow> generateId w);
          ops = (case Option.bind metadata pm_operations of Some os \<Rightarrow> os | None \<Rightarrow> []);
          (cr, w2) = (case Option.bind metadata pm_created of
                        Some t \<Rightarrow> (t, w1) | None \<Rightarrow> Date_now w1);
          src = (case Option.bind metadata pm_source of
                   Some s \<Rightarrow> (if s \<noteq> [] then Some s else None) | None \<Rightarrow> None);
          md = \<lparr>md_id = i, md_operations = ops, md_created = cr, md_source = src\<rparr>;
          r = next_ref w2
      in (r, w2\<lparr>store := (store w2)(r := \<lparr>q_kind = c, q_body = b, q_metadata = md\<rparr>),
                 next_ref := Suc r\<rparr>))"

text \<open>\<open>toJSON\<close>, \<open>metadata\<close>, \<open>id\<close>\<close>

definition toJSON :: "world \<Rightarrow> nat \<Rightarrow> jsval" where
  "toJSON w r = (case q_kind (store w r) of
                   Anonymous v \<Rightarrow> v
                 | _ \<Rightarrow> deepClone (q_body (store w r)))"

definition Query_metadata :: "world \<Rightarrow> nat \<Rightarrow> metadata" where
  "Query_metadata w r = q_metadata (store w r)"

definition Query_id :: "world \<Rightarrow> nat \<Rightarrow> string" where
  "Query_id w r = md_id (q_metadata (store w r))"

text \<open>
  \<open>when\<close> and \<open>unless\<close>. The callback is any function from an instance to an instance;
  it may allocate and it may throw.
\<close>

definition Query_when ::
  "nat \<Rightarrow> jsval \<Rightarrow> (nat \<Rightarrow> world \<Rightarrow> (nat \<times> world) result) \<Rightarrow> world \<Rightarrow> (nat \<times> world) result" where
  "Query_when this condition fn w = (if truthy condition then fn this w else Inr (this, w))"

definition Query_unless ::
  "nat \<Rightarrow> jsval \<Rightarrow> (nat \<Rightarrow> world \<Rightarrow> (nat \<times> world) result) \<Rightarrow> world \<Rightarrow> (nat \<times> world) result" where
  "Query_unless this condition fn w =
     (if \<not> truthy condition then fn this w else Inr (this, w))"

section \<open>Operation records and the clone primitive\<close>

text \<open>An argument of a recorded call is a plain value or an instance.\<close>

datatype argument = Plain jsval | Instance nat

definition serializeArgs :: "world \<Rightarrow> argument list \<Rightarrow> jsval list" where
  "serializeArgs w args =
     map (\<lambda>a. case a of
                 Instance r \<Rightarrow> obj [(''_type'', JStr ''Query''), (''_id'', JStr (Query_id w r)),
                                      (''_toJSON'', toJSON w r)]
               | Plain v \<Rightarrow> v) args"

definition recordOperation :: "string \<Rightarrow> argument list \<Rightarrow> world \<Rightarrow> operation \<times> world" where
  "recordOperation method args w =
     (let as = serializeArgs w args;
          (t, w1) = Date_now w;
          (i, w2) = generateOperationId w1
      in (\<lparr>op_method = method, op_args = as, op_timestamp = t, op_id = i\<rparr>, w2))"

text \<open>\<open>body ? { ...this._body, ...body } : this._body\<close>, the first line of every \<open>clone\<close>.\<close>

definition merged_body :: "world \<Rightarrow> nat \<Rightarrow> jsval \<Rightarrow> jsval" where
  "merged_body w this body =
     (if truthy body then obj (spread_into (own_props (q_body (store w this))) (own_props body))
      else q_body (store w this))"

text \<open>
  \<open>(newQuery as any)._body = Object.freeze(newQuery._deepClone(newBody))\<close>, the
  assignment with which several \<open>clone\<close> methods overwrite the body of the instance they
  have just created.
\<close>

definition overwrite_body :: "nat \<Rightarrow> jsval \<Rightarrow> world \<Rightarrow> world" where
  "overwrite_body r newBody w =
     w\<lparr>store := (store w)(r := (store w r)\<lparr>q_body := Object_freeze (deepClone newBody)\<rparr>)\<rparr>"

text \<open>An instance of an anonymous subclass: \<open>new (class extends Query { ... })({})\<close>.\<close>

definition new_Anonymous :: "jsval \<Rightarrow> world \<Rightarrow> nat \<times> world" where
  "new_Anonymous captured w = Query_constructor (Anonymous captured) (obj []) None w"

fun new_Anonymous_each :: "jsval list \<Rightarrow> world \<Rightarrow> nat list \<times> world" where
  "new_Anonymous_each [] w = ([], w)"
| "new_Anonymous_each (v # vs) w =
     (let (r, w1) = new_Anonymous v w;
          (rs, w2) = new_Anonymous_each vs w1
      in (r # rs, w2))"

text \<open>The elements an array spread \<open>[...v]\<close> or \<open>v.map(f)\<close> runs over.\<close>

fun array_elements :: "jsval \<Rightarrow> jsval list result" where
  "array_elements (JArr f xs) = Inr xs"
| "array_elements v = Inl TypeError"

fun spread_elements :: "jsval \<Rightarrow> jsval list result" where
  "spread_elements (JArr f xs) = Inr xs"
| "spread_elements (JStr s) = Inr (map (\<lambda>c. JStr [c]) s)"
| "spread_elements v = Inl TypeError"

section \<open>TermQuery\<close>

definition TermQuery_constructor :: "string \<Rightarrow> jsval \<Rightarrow> world \<Rightarrow> nat \<times> world" where
  "TermQuery_constructor field v w =
     Query_constructor TermQuery (obj [(''term'', obj [(field, v)])]) None w"

definition getBaseValue :: "jsval \<Rightarrow> jsval" where
  "getBaseValue v =
     (if is_object v \<and> has_prop v ''value'' then get_prop_opt v ''value'' else v)"

definition TermQuery_clone ::
  "nat \<Rightarrow> jsval \<Rightarrow> partial_metadata option \<Rightarrow> world \<Rightarrow> (nat \<times> world) result" where
  "TermQuery_clone this body metadata w =
     (let newBody = merged_body w this body in
      and_then (get_prop newBody ''term'') (\<lambda>term.
      and_then (first_entry term) (\<lambda>(field, v).
        let baseValue = getBaseValue v;
            (newQuery, w1) = TermQuery_constructor field baseValue w
        in Inr (newQuery, overwrite_body newQuery newBody w1))))"

section \<open>BoolQuery\<close>

definition BoolQuery_constructor :: "jsval \<Rightarrow> world \<Rightarrow> nat \<times> world" where
  "BoolQuery_constructor body w =
     Query_constructor BoolQuery
       (obj (spread_into [(''bool'', obj [])] (own_props body))) None w"

definition BoolQuery_clone ::
  "nat \<Rightarrow> jsval \<Rightarrow> partial_metadata option \<Rightarrow> world \<Rightarrow> (nat \<times> world) result" where
  "BoolQuery_clone this body metadata w =
     Inr (BoolQuery_constructor (merged_body w this body) w)"

section \<open>RangeQuery\<close>

definition RangeQuery_constructor :: "string \<Rightarrow> world \<Rightarrow> nat \<times> world" where
  "RangeQuery_constructor field w =
     Query_constructor RangeQuery (obj [(''range'', obj [(field, obj [])])]) None w"

definition RangeQuery_clone ::
  "nat \<Rightarrow> jsval \<Rightarrow> partial_metadata option \<Rightarrow> world \<Rightarrow> (nat \<times> world) result" where
  "RangeQuery_clone this body metadata w =
     (let newBody = merged_body w this body in
      and_then (get_prop newBody ''range'') (\<lambda>range.
      and_then (first_entry range) (\<lambda>(field, v).
        let (newQuery, w1) = RangeQuery_constructor field w
        in Inr (newQuery, overwrite_body newQuery newBody w1))))"

section \<open>NestedQuery\<close>

definition NestedQuery_constructor :: "string \<Rightarrow> nat \<Rightarrow> world \<Rightarrow> nat \<times> world" where
  "NestedQuery_constructor path q w =
     Query_constructor NestedQuery
       (obj [(''nested'', obj [(''path'', JStr path), (''query'', toJSON w q)])]) None w"

text \<open>
  \<open>clone\<close> takes the path out of the new body and the inner query out of the old one,
  and builds the instance from these two alone. The path it reads is whatever value the
  body holds there, so the constructor is given a value.
\<close>

definition NestedQuery_of_value :: "jsval \<Rightarrow> nat \<Rightarrow> world \<Rightarrow> nat \<times> world" where
  "NestedQuery_of_value path q w =
     Query_constructor NestedQuery
       (obj [(''nested'', obj [(''path'', path), (''query'', toJSON w q)])]) None w"

definition NestedQuery_clone ::
  "nat \<Rightarrow> jsval \<Rightarrow> partial_metadata option \<Rightarrow> world \<Rightarrow> (nat \<times> world) result" where
  "NestedQuery_clone this body metadata w =
     (let newBody = merged_body w this body in
      and_then (get_prop newBody ''nested'') (\<lambda>new_nested.
      and_then (get_prop (q_body (store w this)) ''nested'') (\<lambda>nested.
      and_then (get_prop nested ''path'') (\<lambda>old_path.
      and_then (get_prop nested ''query'') (\<lambda>query.
        let path = or_else (get_prop_opt new_nested ''path'') old_path;
            (tempQuery, w1) = new_Anonymous query w
        in Inr (NestedQuery_of_value path tempQuery w1))))))"

section \<open>DisMaxQuery\<close>

definition DisMaxQuery_constructor :: "nat list \<Rightarrow> world \<Rightarrow> nat \<times> world" where
  "DisMaxQuery_constructor queries w =
     Query_constructor DisMaxQuery
       (obj [(''dis_max'', obj [(''queries'', arr (map (toJSON w) queries))])]) None w"

definition DisMaxQuery_clone ::
  "nat \<Rightarrow> jsval \<Rightarrow> partial_metadata option \<Rightarrow> world \<Rightarrow> (nat \<times> world) result" where
  "DisMaxQuery_clone this body metadata w =
     and_then (get_prop (q_body (store w this)) ''dis_max'') (\<lambda>dis_max.
     and_then (get_prop dis_max ''queries'') (\<lambda>queries.
     and_then (array_elements queries) (\<lambda>qs.
       let (tempQueries, w1) = new_Anonymous_each qs w
       in Inr (DisMaxQuery_constructor tempQueries w1))))"

section \<open>BoostingQuery\<close>

text \<open>The third parameter has the default \<open>0.2\<close>, used when the argument is \<open>undefined\<close>.\<close>

definition BoostingQuery_constructor :: "nat \<Rightarrow> nat \<Rightarrow> jsval \<Rightarrow> world \<Rightarrow> nat \<times> world" where
  "BoostingQuery_constructor positive negative negativeBoost w =
     Query_constructor BoostingQuery
       (obj [(''boosting'',
              obj [(''positive'', toJSON w positive),
                   (''negative'', toJSON w negative),
                   (''negative_boost'',
                    if negativeBoost = JUndefined then JNum (2 / 10) else negativeBoost)])])
       None w"

definition BoostingQuery_clone ::
  "nat \<Rightarrow> jsval \<Rightarrow> partial_metadata option \<Rightarrow> world \<Rightarrow> (nat \<times> world) result" where
  "BoostingQuery_clone this body metadata w =
     (let newBody = merged_body w this body in
      and_then (get_prop (q_body (store w this)) ''boosting'') (\<lambda>boosting.
      and_then (get_prop boosting ''positive'') (\<lambda>positive.
      and_then (get_prop boosting ''negative'') (\<lambda>negative.
      and_then (get_prop newBody ''boosting'') (\<lambda>new_boosting.
      and_then (get_prop boosting ''negative_boost'') (\<lambda>old_boost.
        let negativeBoost = or_else (get_prop_opt new_boosting ''negative_boost'') old_boost;
            (tempPositive, w1) = new_Anonymous positive w;
            (tempNegative, w2) = new_Anonymous negative w1
        in Inr (BoostingQuery_constructor tempPositive tempNegative negativeBoost w2)))))))"

section \<open>Dispatch of clone, and the mutator primitive\<close>

definition clone ::
  "nat \<Rightarrow> jsval \<Rightarrow> partial_metadata option \<Rightarrow> world \<Rightarrow> (nat \<times> world) result" where
  "clone this body metadata w =
     (case q_kind (store w this) of
        TermQuery \<Rightarrow> TermQuery_clone this body metadata w
      | BoolQuery \<Rightarrow> BoolQuery_clone this body metadata w
      | RangeQuery \<Rightarrow> RangeQuery_clone this body metadata w
      | NestedQuery \<Rightarrow> NestedQuery_clone this body metadata w
      | DisMaxQuery \<Rightarrow> DisMaxQuery_clone this body metadata w
      | BoostingQuery \<Rightarrow> BoostingQuery_clone this body metadata w
      | Anonymous v \<Rightarrow> Inr (this, w))"

text \<open>\<open>Query._createNew\<close>\<close>

definition createNew ::
  "nat \<Rightarrow> jsval \<Rightarrow> operation option \<Rightarrow> world \<Rightarrow> (nat \<times> world) result" where
  "createNew this newBody operation w =
     (let newOperations =
            (case operation of
               Some op \<Rightarrow> md_operations (q_metadata (store w this)) @ [op]
             | None \<Rightarrow> md_operations (q_metadata (store w this)))
      in clone this newBody
           (Some \<lparr>pm_id = None, pm_operations = Some newOperations,
                  pm_created = None, pm_source = None\<rparr>) w)"

section \<open>Mutators and accessors\<close>

subsection \<open>TermQuery\<close>

definition TermQuery_boost :: "nat \<Rightarrow> real \<Rightarrow> world \<Rightarrow> (nat \<times> world) result" where
  "TermQuery_boost this v w =
     (let (operation, w1) = recordOperation ''boost'' [Plain (JNum v)] w in
      and_then (get_prop (q_body (store w1 this)) ''term'') (\<lambda>term.
      and_then (first_entry term) (\<lambda>(field, currentValue).
        let newValue =
              (if is_object currentValue
               then obj (set_prop ''boost'' (JNum v) (own_props currentValue))
               else obj [(''value'', currentValue), (''boost'', JNum v)])
        in createNew this (obj [(''term'', obj [(field, newValue)])]) (Some operation) w1)))"

definition TermQuery_caseInsensitive :: "nat \<Rightarrow> bool \<Rightarrow> world \<Rightarrow> (nat \<times> world) result" where
  "TermQuery_caseInsensitive this v w =
     (let (operation, w1) = recordOperation ''caseInsensitive'' [Plain (JBool v)] w in
      and_then (get_prop (q_body (store w1 this)) ''term'') (\<lambda>term.
      and_then (first_entry term) (\<lambda>(field, currentValue).
        let newValue =
              (if is_object currentValue
               then obj (set_prop ''case_insensitive'' (JBool v) (own_props currentValue))
               else obj [(''value'', currentValue), (''case_insensitive'', JBool v)])
        in createNew this (obj [(''term'', obj [(field, newValue)])]) (Some operation) w1)))"

subsection \<open>BoolQuery\<close>

text \<open>
  \<open>must\<close>, \<open>should\<close>, \<open>filter\<close> and \<open>mustNot\<close> are the same method up to the name
  recorded and the clause key written. Each takes one instance or an array of them.
\<close>

datatype clause_argument = One nat | Many "nat list"

fun as_array :: "clause_argument \<Rightarrow> nat list" where
  "as_array (One q) = [q]"
| "as_array (Many qs) = qs"

definition add_clauses ::
  "string \<Rightarrow> string \<Rightarrow> nat \<Rightarrow> clause_argument \<Rightarrow> world \<Rightarrow> (nat \<times> world) result" where
  "add_clauses method key this query w =
     (let queries = as_array query in
      and_then (get_prop (q_body (store w this)) ''bool'') (\<lambda>bool.
      and_then (get_prop bool key) (\<lambda>present.
      and_then (spread_elements (or_else present (arr []))) (\<lambda>current.
        let newClauses = arr (current @ map (toJSON w) queries);
            (operation, w1) = recordOperation method (map Instance queries) w
        in createNew this
             (obj [(''bool'', obj (set_prop key newClauses (own_props bool)))])
             (Some operation) w1))))"

definition BoolQuery_must :: "nat \<Rightarrow> clause_argument \<Rightarrow> world \<Rightarrow> (nat \<times> world) result" where
  "BoolQuery_must = add_clauses ''must'' ''must''"

definition BoolQuery_should :: "nat \<Rightarrow> clause_argument \<Rightarrow> world \<Rightarrow> (nat \<times> world) result" where
  "BoolQuery_should = add_clauses ''should'' ''should''"

definition BoolQuery_filter :: "nat \<Rightarrow> clause_argument \<Rightarrow> world \<Rightarrow> (nat \<times> world) result" where
  "BoolQuery_filter = add_clauses ''filter'' ''filter''"

definition BoolQuery_mustNot :: "nat \<Rightarrow> clause_argument \<Rightarrow> world \<Rightarrow> (nat \<times> world) result" where
  "BoolQuery_mustNot = add_clauses ''mustNot'' ''must_not''"

text \<open>
  \<open>minimumShouldMatch\<close> and \<open>boost\<close> are the same method up to the name recorded and
  the key written.
\<close>

definition bool_option ::
  "string \<Rightarrow> string \<Rightarrow> nat \<Rightarrow> jsval \<Rightarrow> world \<Rightarrow> (nat \<times> world) result" where
  "bool_option method key this v w =
     (let (operation, w1) = recordOperation method [Plain v] w in
      and_then (get_prop (q_body (store w1 this)) ''bool'') (\<lambda>bool.
        createNew this (obj [(''bool'', obj (set_prop key v (own_props bool)))])
          (Some operation) w1))"

definition BoolQuery_minimumShouldMatch ::
  "nat \<Rightarrow> jsval \<Rightarrow> world \<Rightarrow> (nat \<times> world) result" where
  "BoolQuery_minimumShouldMatch = bool_option ''minimumShouldMatch'' ''minimum_should_match''"

definition BoolQuery_boost :: "nat \<Rightarrow> real \<Rightarrow> world \<Rightarrow> (nat \<times> world) result" where
  "BoolQuery_boost this v = bool_option ''boost'' ''boost'' this (JNum v)"

text \<open>\<open>!bool.must?.length && ...\<close>\<close>

definition no_length :: "jsval \<Rightarrow> string \<Rightarrow> bool result" where
  "no_length bool key =
     and_then (get_prop bool key) (\<lambda>c. Inr (\<not> truthy (get_prop_opt c ''length'')))"

definition BoolQuery_isEmpty :: "world \<Rightarrow> nat \<Rightarrow> bool result" where
  "BoolQuery_isEmpty w this =
     and_then (get_prop (q_body (store w this)) ''bool'') (\<lambda>bool.
     and_then (no_length bool ''must'') (\<lambda>a. if \<not> a then Inr False else
     and_then (no_length bool ''should'') (\<lambda>b. if \<not> b then Inr False else
     and_then (no_length bool ''filter'') (\<lambda>c. if \<not> c then Inr False else
     no_length bool ''must_not''))))"

subsection \<open>RangeQuery\<close>

text \<open>
  \<open>gte\<close>, \<open>gt\<close>, \<open>lte\<close>, \<open>lt\<close>, \<open>boost\<close>, \<open>format\<close>, \<open>timeZone\<close> and \<open>relation\<close>
  are the same method up to the name recorded and the key written.
\<close>

definition range_option ::
  "string \<Rightarrow> string \<Rightarrow> nat \<Rightarrow> jsval \<Rightarrow> world \<Rightarrow> (nat \<times> world) result" where
  "range_option method key this v w =
     (let (operation, w1) = recordOperation method [Plain v] w in
      and_then (get_prop (q_body (store w1 this)) ''range'') (\<lambda>range.
      and_then (first_entry range) (\<lambda>(field, currentRange).
        createNew this
          (obj [(''range'', obj [(field, obj (set_prop key v (own_props currentRange)))])])
          (Some operation) w1)))"

definition RangeQuery_gte :: "nat \<Rightarrow> jsval \<Rightarrow> world \<Rightarrow> (nat \<times> world) result" where
  "RangeQuery_gte = range_option ''gte'' ''gte''"

definition RangeQuery_gt :: "nat \<Rightarrow> jsval \<Rightarrow> world \<Rightarrow> (nat \<times> world) result" where
  "RangeQuery_gt = range_option ''gt'' ''gt''"

definition RangeQuery_lte :: "nat \<Rightarrow> jsval \<Rightarrow> world \<Rightarrow> (nat \<times> world) result" where
  "RangeQuery_lte = range_option ''lte'' ''lte''"

definition RangeQuery_lt :: "nat \<Rightarrow> jsval \<Rightarrow> world \<Rightarrow> (nat \<times> world) result" where
  "RangeQuery_lt = range_option ''lt'' ''lt''"

definition RangeQuery_boost :: "nat \<Rightarrow> real \<Rightarrow> world \<Rightarrow> (nat \<times> world) result" where
  "RangeQuery_boost this v = range_option ''boost'' ''boost'' this (JNum v)"

definition RangeQuery_format :: "nat \<Rightarrow> string \<Rightarrow> world \<Rightarrow> (nat \<times> world) result" where
  "RangeQuery_format this v = range_option ''format'' ''format'' this (JStr v)"

definition RangeQuery_timeZone :: "nat \<Rightarrow> string \<Rightarrow> world \<Rightarrow> (nat \<times> world) result" where
  "RangeQuery_timeZone this v = range_option ''timeZone'' ''time_zone'' this (JStr v)"

definition RangeQuery_relation :: "nat \<Rightarrow> string \<Rightarrow> world \<Rightarrow> (nat \<times> world) result" where
  "RangeQuery_relation this v = range_option ''relation'' ''relation'' this (JStr v)"

definition RangeQuery_between ::
  "nat \<Rightarrow> jsval \<Rightarrow> jsval \<Rightarrow> bool \<Rightarrow> world \<Rightarrow> (nat \<times> world) result" where
  "RangeQuery_between this lo hi inclusive w =
     (let (operation, w1) =
            recordOperation ''between'' [Plain lo, Plain hi, Plain (JBool inclusive)] w in
      and_then (get_prop (q_body (store w1 this)) ''range'') (\<lambda>range.
      and_then (first_entry range) (\<lambda>(field, currentRange).
        let newRange =
              (if inclusive
               then set_prop ''lte'' hi (set_prop ''gte'' lo (own_props currentRange))
               else set_prop ''lt'' hi (set_prop ''gt'' lo (own_props currentRange)))
        in createNew this (obj [(''range'', obj [(field, obj newRange)])])
             (Some operation) w1)))"

record bounds =
  b_gte :: jsval
  b_gt :: jsval
  b_lte :: jsval
  b_lt :: jsval

text \<open>\<open>Object.values(this._body.range)[0]\<close> is \<open>undefined\<close> when there is no entry.\<close>

definition first_value :: "jsval \<Rightarrow> jsval result" where
  "first_value v =
     and_then (Object_entries v) (\<lambda>es. case es of [] \<Rightarrow> Inr JUndefined | e # _ \<Rightarrow> Inr (snd e))"

definition RangeQuery_getBounds :: "world \<Rightarrow> nat \<Rightarrow> bounds result" where
  "RangeQuery_getBounds w this =
     and_then (get_prop (q_body (store w this)) ''range'') (\<lambda>ranges.
     and_then (first_value ranges) (\<lambda>range.
     and_then (get_prop range ''gte'') (\<lambda>gte.
     and_then (get_prop range ''gt'') (\<lambda>gt.
     and_then (get_prop range ''lte'') (\<lambda>lte.
     and_then (get_prop range ''lt'') (\<lambda>lt.
       Inr \<lparr>b_gte = gte, b_gt = gt, b_lte = lte, b_lt = lt\<rparr>))))))"

definition RangeQuery_hasBounds :: "world \<Rightarrow> nat \<Rightarrow> bool result" where
  "RangeQuery_hasBounds w this =
     and_then (RangeQuery_getBounds w this) (\<lambda>bounds.
       Inr (b_gte bounds \<noteq> JUndefined \<or> b_gt bounds \<noteq> JUndefined \<or>
            b_lte bounds \<noteq> JUndefined \<or> b_lt bounds \<noteq> JUndefined))"

subsection \<open>NestedQuery\<close>

text \<open>
  The six mutators are the same method up to the name and the argument recorded and
  the key and the value written.
\<close>

definition nested_option ::
  "string \<Rightarrow> string \<Rightarrow> argument \<Rightarrow> jsval \<Rightarrow> nat \<Rightarrow> world \<Rightarrow> (nat \<times> world) result" where
  "nested_option method key a v this w =
     (let (operation, w1) = recordOperation method [a] w in
      and_then (get_prop (q_body (store w1 this)) ''nested'') (\<lambda>nested.
        createNew this
          (obj [(''nested'', obj (set_prop key v (own_props nested)))])
          (Some operation) w1))"

definition NestedQuery_path :: "nat \<Rightarrow> string \<Rightarrow> world \<Rightarrow> (nat \<times> world) result" where
  "NestedQuery_path this v = nested_option ''path'' ''path'' (Plain (JStr v)) (JStr v) this"

definition NestedQuery_query :: "nat \<Rightarrow> nat \<Rightarrow> world \<Rightarrow> (nat \<times> world) result" where
  "NestedQuery_query this q w =
     nested_option ''query'' ''query'' (Instance q) (toJSON w q) this w"

definition NestedQuery_scoreMode :: "nat \<Rightarrow> string \<Rightarrow> world \<Rightarrow> (nat \<times> world) result" where
  "NestedQuery_scoreMode this v =
     nested_option ''scoreMode'' ''score_mode'' (Plain (JStr v)) (JStr v) this"

definition NestedQuery_boost :: "nat \<Rightarrow> real \<Rightarrow> world \<Rightarrow> (nat \<times> world) result" where
  "NestedQuery_boost this v = nested_option ''boost'' ''boost'' (Plain (JNum v)) (JNum v) this"

definition NestedQuery_ignoreUnmapped :: "nat \<Rightarrow> bool \<Rightarrow> world \<Rightarrow> (nat \<times> world) result" where
  "NestedQuery_ignoreUnmapped this v =
     nested_option ''ignoreUnmapped'' ''ignore_unmapped'' (Plain (JBool v)) (JBool v) this"

definition NestedQuery_innerHits :: "nat \<Rightarrow> jsval \<Rightarrow> world \<Rightarrow> (nat \<times> world) result" where
  "NestedQuery_innerHits this config =
     nested_option ''innerHits'' ''inner_hits'' (Plain config) config this"

subsection \<open>DisMaxQuery\<close>

definition DisMaxQuery_query :: "nat \<Rightarrow> nat \<Rightarrow> world \<Rightarrow> (nat \<times> world) result" where
  "DisMaxQuery_query this q w =
     (let (operation, w1) = recordOperation ''query'' [Instance q] w in
      and_then (get_prop (q_body (store w1 this)) ''dis_max'') (\<lambda>dis_max.
      and_then (get_prop dis_max ''queries'') (\<lambda>currentQueries.
      and_then (spread_elements currentQueries) (\<lambda>current.
        createNew this
          (obj [(''dis_max'',
                 obj (set_prop ''queries'' (arr (current @ [toJSON w1 q])) (own_props dis_max)))])
          (Some operation) w1))))"

definition DisMaxQuery_addQueries :: "nat \<Rightarrow> nat list \<Rightarrow> world \<Rightarrow> (nat \<times> world) result" where
  "DisMaxQuery_addQueries this qs w =
     (let (operation, w1) = recordOperation ''addQueries'' (map Instance qs) w in
      and_then (get_prop (q_body (store w1 this)) ''dis_max'') (\<lambda>dis_max.
      and_then (get_prop dis_max ''queries'') (\<lambda>currentQueries.
      and_then (spread_elements currentQueries) (\<lambda>current.
        createNew this
          (obj [(''dis_max'',
                 obj (set_prop ''queries'' (arr (current @ map (toJSON w1) qs))
                        (own_props dis_max)))])
          (Some operation) w1))))"

definition DisMaxQuery_boost :: "nat \<Rightarrow> real \<Rightarrow> world \<Rightarrow> (nat \<times> world) result" where
  "DisMaxQuery_boost this v w =
     (let (operation, w1) = recordOperation ''boost'' [Plain (JNum v)] w in
      and_then (get_prop (q_body (store w1 this)) ''dis_max'') (\<lambda>dis_max.
        createNew this
          (obj [(''dis_max'', obj (set_prop ''boost'' (JNum v) (own_props dis_max)))])
          (Some operation) w1))"

definition DisMaxQuery_tieBreaker :: "nat \<Rightarrow> real \<Rightarrow> world \<Rightarrow> (nat \<times> world) result" where
  "DisMaxQuery_tieBreaker this v w =
     (if v < 0 \<or> v > 1 then Inl (Error ''Tie breaker must be between 0 and 1'')
      else
        let (operation, w1) = recordOperation ''tieBreaker'' [Plain (JNum v)] w in
        and_then (get_prop (q_body (store w1 this)) ''dis_max'') (\<lambda>dis_max.
          createNew this
            (obj [(''dis_max'', obj (set_prop ''tie_breaker'' (JNum v) (own_props dis_max)))])
            (Some operation) w1))"

subsection \<open>BoostingQuery\<close>

text \<open>\<open>positive\<close> and \<open>negative\<close> are the same method up to the name, which is the key.\<close>

definition boosting_side :: "string \<Rightarrow> nat \<Rightarrow> nat \<Rightarrow> world \<Rightarrow> (nat \<times> world) result" where
  "boosting_side key this q w =
     (let (operation, w1) = recordOperation key [Instance q] w in
      and_then (get_prop (q_body (store w1 this)) ''boosting'') (\<lambda>boosting.
        createNew this
          (obj [(''boosting'', obj (set_prop key (toJSON w1 q) (own_props boosting)))])
          (Some operation) w1))"

definition BoostingQuery_positive :: "nat \<Rightarrow> nat \<Rightarrow> world \<Rightarrow> (nat \<times> world) result" where
  "BoostingQuery_positive = boosting_side ''positive''"

definition BoostingQuery_negative :: "nat \<Rightarrow> nat \<Rightarrow> world \<Rightarrow> (nat \<times> world) result" where
  "BoostingQuery_negative = boosting_side ''negative''"

definition BoostingQuery_negativeBoost :: "nat \<Rightarrow> real \<Rightarrow> world \<Rightarrow> (nat \<times> world) result" where
  "BoostingQuery_negativeBoost this v w =
     (if v < 0 \<or> v > 1 then Inl (Error ''Negative boost must be between 0 and 1'')
      else
        let (operation, w1) = recordOperation ''negativeBoost'' [Plain (JNum v)] w in
        and_then (get_prop (q_body (store w1 this)) ''boosting'') (\<lambda>boosting.
          createNew this
            (obj [(''boosting'',
                   obj (set_prop ''negative_boost'' (JNum v) (own_props boosting)))])
            (Some operation) w1))"

section \<open>Structural equality\<close>

text \<open>
  \<open>Date.prototype.toISOString\<close>: the UTC calendar date of a timestamp, with a
  four-digit year from 0 to 9999 and a signed six-digit year otherwise.
\<close>

definition pad :: "nat \<Rightarrow> nat \<Rightarrow> string" where
  "pad width n = replicate (width - length (decimal n)) CHR ''0'' @ decimal n"

definition civil_from_days :: "int \<Rightarrow> int \<times> nat \<times> nat" where
  "civil_from_days days =
     (let z = days + 719468;
          era = z div 146097;
          doe = z mod 146097;
          yoe = (doe - doe div 1460 + doe div 36524 - doe div 146096) div 365;
          doy = doe - (365 * yoe + yoe div 4 - yoe div 100);
          mp = (5 * doy + 2) div 153;
          d = doy - (153 * mp + 2) div 5 + 1;
          m = (if mp < 10 then mp + 3 else mp - 9);
          y = yoe + era * 400 + (if m \<le> 2 then 1 else 0)
      in (y, nat m, nat d))"

definition Date_toISOString :: "int \<Rightarrow> string" where
  "Date_toISOString t =
     (let (y, m, d) = civil_from_days (t div 86400000);
          ms = nat (t mod 86400000);
          year = (if 0 \<le> y \<and> y \<le> 9999 then pad 4 (nat y)
                  else (if y < 0 then ''-'' else ''+'') @ pad 6 (nat \<bar>y\<bar>))
      in year @ ''-'' @ pad 2 m @ ''-'' @ pad 2 d @ ''T'' @
         pad 2 (ms div 3600000) @ '':'' @ pad 2 (ms div 60000 mod 60) @ '':'' @
         pad 2 (ms div 1000 mod 60) @ ''.'' @ pad 3 (ms mod 1000) @ ''Z'')"

text \<open>
  \<open>JSON.stringify\<close>. The text it returns is kept as its sequence of lexical tokens: two
  JSON texts are the same string exactly when they are the same token sequence. A
  property whose value is \<open>undefined\<close> is left out, an \<open>undefined\<close> array element prints
  as \<open>null\<close>, and \<open>undefined\<close> itself has no text. A \<open>Date\<close> prints as the string of
  its ISO form, and an invalid \<open>Date\<close> as \<open>null\<close>.
\<close>

datatype token =
    TNull | TBool bool | TNum real | TStr string
  | TBeginArray | TEndArray | TBeginObject | TEndObject | TColon | TComma

fun separated :: "token list list \<Rightarrow> token list" where
  "separated [] = []"
| "separated [ts] = ts"
| "separated (ts # rest) = ts @ TComma # separated rest"

fun json_text :: "jsval \<Rightarrow> token list" where
  "json_text JUndefined = [TNull]"
| "json_text JNull = [TNull]"
| "json_text (JBool b) = [TBool b]"
| "json_text (JNum x) = [TNum x]"
| "json_text (JStr s) = [TStr s]"
| "json_text (JDate t) =
     [if \<bar>t\<bar> \<le> 8640000000000000 then TStr (Date_toISOString t) else TNull]"
| "json_text (JArr f xs) = TBeginArray # separated (map json_text xs) @ [TEndArray]"
| "json_text (JObj f kvs) =
     TBeginObject #
     separated (map (\<lambda>(k, v). TStr k # TColon # json_text v)
                    (filter (\<lambda>(k, v). v \<noteq> JUndefined) kvs)) @ [TEndObject]"

definition JSON_stringify :: "jsval \<Rightarrow> token list option" where
  "JSON_stringify v = (if v = JUndefined then None else Some (json_text v))"

text \<open>\<open>Query.equals\<close>\<close>

definition equals :: "world \<Rightarrow> nat \<Rightarrow> nat \<Rightarrow> bool" where
  "equals w this other = (JSON_stringify (toJSON w this) = JSON_stringify (toJSON w other))"

section \<open>The factory Q\<close>

definition Q_bool :: "world \<Rightarrow> nat \<times> world" where
  "Q_bool w = BoolQuery_constructor JUndefined w"

definition Q_term :: "string \<Rightarrow> jsval \<Rightarrow> world \<Rightarrow> nat \<times> world" where
  "Q_term field v w = TermQuery_constructor field v w"

definition Q_range :: "string \<Rightarrow> world \<Rightarrow> nat \<times> world" where
  "Q_range field w = RangeQuery_constructor field w"

definition Q_nested :: "string \<Rightarrow> nat \<Rightarrow> world \<Rightarrow> nat \<times> world" where
  "Q_nested path q w = NestedQuery_constructor path q w"

definition Q_boosting :: "nat \<Rightarrow> nat \<Rightarrow> jsval \<Rightarrow> world \<Rightarrow> nat \<times> world" where
  "Q_boosting positive negative negativeBoost w =
     BoostingQuery_constructor positive negative negativeBoost w"

text \<open>\<open>Q.exists\<close> of the small factory module: \<open>new RangeQuery(field).gte(null)\<close>.\<close>

definition Q_exists :: "string \<Rightarrow> world \<Rightarrow> (nat \<times> world) result" where
  "Q_exists field w = (let (r, w1) = RangeQuery_constructor field w in RangeQuery_gte r JNull w1)"

text \<open>
  \<open>Q.validate\<close>. An exception inside the \<open>try\<close> block adds one more message to the
  ones already collected; the text of an engine's TypeError is not fixed by the language.
\<close>

record validation =
  valid :: bool
  errors :: "string list"

fun error_message :: "error \<Rightarrow> string" where
  "error_message (Error m) = m"
| "error_message TypeError = ''TypeError''"

definition serialization_failed :: "error \<Rightarrow> string" where
  "serialization_failed e = ''Query serialization failed: '' @ error_message e"

definition Q_validate :: "world \<Rightarrow> nat \<Rightarrow> validation" where
  "Q_validate w q =
     (let json = toJSON w q;
          errors1 = (if \<not> truthy json \<or> \<not> is_object json
                     then [''Query does not produce valid JSON object''] else []);
          errors2 =
            (if q_kind (store w q) = BoolQuery then
               (case BoolQuery_isEmpty w q of
                  Inl e \<Rightarrow> Inl (errors1 @ [serialization_failed e])
                | Inr is_empty \<Rightarrow>
                    Inr (if is_empty then errors1 @ [''Bool query has no clauses''] else errors1))
             else Inr errors1);
          errors3 =
            (case errors2 of
               Inl es \<Rightarrow> es
             | Inr es \<Rightarrow>
                 if q_kind (store w q) = RangeQuery then
                   (case RangeQuery_hasBounds w q of
                      Inl e \<Rightarrow> es @ [serialization_failed e]
                    | Inr has \<Rightarrow>
                        if \<not> has then es @ [''Range query has no bounds set''] else es)
                 else es)
      in \<lparr>valid = (errors3 = []), errors = errors3\<rparr>)"

section \<open>Writing into a stored body\<close>

text \<open>
  The assignment \<open>o[k] = v\<close> in strict code: a TypeError when \<open>o\<close> is frozen or is
  \<open>undefined\<close> or \<open>null\<close>, no effect on another primitive, and otherwise the property is
  set. On an array the key is an index, at most the length; an assignment under
  another key leaves the elements as they are.
\<close>

fun index_of :: "string \<Rightarrow> nat \<Rightarrow> nat option" where
  "index_of k 0 = None"
| "index_of k (Suc n) = (if decimal n = k then Some n else index_of k n)"

fun assign_prop :: "jsval \<Rightarrow> string \<Rightarrow> jsval \<Rightarrow> jsval result" where
  "assign_prop JUndefined k v = Inl TypeError"
| "assign_prop JNull k v = Inl TypeError"
| "assign_prop (JObj f kvs) k v = (if f then Inl TypeError else Inr (JObj f (set_prop k v kvs)))"
| "assign_prop (JArr f xs) k v =
     (if f then Inl TypeError
      else case index_of k (Suc (length xs)) of
             None \<Rightarrow> Inr (JArr f xs)
           | Some i \<Rightarrow> Inr (JArr f (if i < length xs then xs[i := v] else xs @ [v])))"
| "assign_prop x k v = Inr x"

text \<open>
  \<open>root.p1.p2...pn[k] = v\<close>: the assignment reached through the properties \<open>p1 ... pn\<close>;
  the result is the tree under the root afterwards.
\<close>

fun assign_at :: "jsval \<Rightarrow> string list \<Rightarrow> string \<Rightarrow> jsval \<Rightarrow> jsval result" where
  "assign_at base [] k v = assign_prop base k v"
| "assign_at base (p # ps) k v =
     and_then (get_prop base p) (\<lambda>child.
     and_then (assign_at child ps k v) (\<lambda>child'.
       case base of
         JObj f kvs \<Rightarrow> Inr (JObj f (map (\<lambda>(n, x). if n = p then (n, child') else (n, x)) kvs))
       | JArr f xs \<Rightarrow>
           (case index_of p (length xs) of
              Some i \<Rightarrow> Inr (JArr f (xs[i := child']))
            | None \<Rightarrow> Inr base)
       | _ \<Rightarrow> Inr base))"

section \<open>Calls, invariants and fixtures\<close>

text \<open>
  A mutator call \<open>q.m(...)\<close> on the classes above, as a value, so that a statement can
  range over the mutators: all of them but \<open>DisMaxQuery.queries\<close>, whose recorded
  argument is an array of live instances.
\<close>

datatype mutation =
    Term_boost real | Term_caseInsensitive bool
  | Bool_must clause_argument | Bool_should clause_argument
  | Bool_filter clause_argument | Bool_mustNot clause_argument
  | Bool_minimumShouldMatch jsval | Bool_boost real
  | Range_gte jsval | Range_gt jsval | Range_lte jsval | Range_lt jsval
  | Range_boost real | Range_format string | Range_timeZone string | Range_relation string
  | Range_between jsval jsval bool
  | Nested_path string | Nested_query nat | Nested_scoreMode string | Nested_boost real
  | Nested_ignoreUnmapped bool | Nested_innerHits jsval
  | DisMax_query nat | DisMax_addQueries "nat list" | DisMax_tieBreaker real
  | DisMax_boost real
  | Boosting_positive nat | Boosting_negative nat | Boosting_negativeBoost real

fun call :: "mutation \<Rightarrow> nat \<Rightarrow> world \<Rightarrow> (nat \<times> world) result" where
  "call (Term_boost v) q = TermQuery_boost q v"
| "call (Term_caseInsensitive v) q = TermQuery_caseInsensitive q v"
| "call (Bool_must a) q = BoolQuery_must q a"
| "call (Bool_should a) q = BoolQuery_should q a"
| "call (Bool_filter a) q = BoolQuery_filter q a"
| "call (Bool_mustNot a) q = BoolQuery_mustNot q a"
| "call (Bool_minimumShouldMatch v) q = BoolQuery_minimumShouldMatch q v"
| "call (Bool_boost v) q = BoolQuery_boost q v"
| "call (Range_gte v) q = RangeQuery_gte q v"
| "call (Range_gt v) q = RangeQuery_gt q v"
| "call (Range_lte v) q = RangeQuery_lte q v"
| "call (Range_lt v) q = RangeQuery_lt q v"
| "call (Range_boost v) q = RangeQuery_boost q v"
| "call (Range_format v) q = RangeQuery_format q v"
| "call (Range_timeZone v) q = RangeQuery_timeZone q v"
| "call (Range_relation v) q = RangeQuery_relation q v"
| "call (Range_between lo hi inclusive) q = RangeQuery_between q lo hi inclusive"
| "call (Nested_path v) q = NestedQuery_path q v"
| "call (Nested_query r) q = NestedQuery_query q r"
| "call (Nested_scoreMode v) q = NestedQuery_scoreMode q v"
| "call (Nested_boost v) q = NestedQuery_boost q v"
| "call (Nested_ignoreUnmapped v) q = NestedQuery_ignoreUnmapped q v"
| "call (Nested_innerHits v) q = NestedQuery_innerHits q v"
| "call (DisMax_query r) q = DisMaxQuery_query q r"
| "call (DisMax_addQueries rs) q = DisMaxQuery_addQueries q rs"
| "call (DisMax_tieBreaker v) q = DisMaxQuery_tieBreaker q v"
| "call (DisMax_boost v) q = DisMaxQuery_boost q v"
| "call (Boosting_positive r) q = BoostingQuery_positive q r"
| "call (Boosting_negative r) q = BoostingQuery_negative q r"
| "call (Boosting_negativeBoost v) q = BoostingQuery_negativeBoost q v"

text \<open>The classes a caller can hold an instance of: all but the anonymous ones.\<close>

fun is_variant :: "kind \<Rightarrow> bool" where
  "is_variant (Anonymous v) = False"
| "is_variant k = True"

text \<open>
  The serial number inside an id \<open>q_<serial>_<time>\<close>, read back from the text.
\<close>

definition undigit :: "char \<Rightarrow> nat" where
  "undigit c = of_char c - 48"

definition undecimal :: "string \<Rightarrow> nat" where
  "undecimal s = foldl (\<lambda>a c. 10 * a + undigit c) 0 s"

definition id_serial :: "string \<Rightarrow> nat" where
  "id_serial i = undecimal (takeWhile (\<lambda>c. c \<noteq> CHR ''_'') (drop 2 i))"

text \<open>
  \<open>ids_issued\<close>: every allocated instance carries an id whose serial number the counter
  has reached. \<open>extends w w'\<close>: \<open>w'\<close> is \<open>w\<close> after some allocations; the instances
  of \<open>w\<close> are as they were, and each new one has a serial number issued in between and
  an empty operation list. \<open>spawned w r w'\<close>: moreover \<open>r\<close> is one of the new ones.
\<close>

definition ids_issued :: "world \<Rightarrow> bool" where
  "ids_issued w \<longleftrightarrow> (\<forall>r < next_ref w. id_serial (Query_id w r) \<le> queryIdCounter w)"

definition extends :: "world \<Rightarrow> world \<Rightarrow> bool" where
  "extends w w' \<longleftrightarrow>
     next_ref w \<le> next_ref w' \<and> queryIdCounter w \<le> queryIdCounter w' \<and>
     (\<forall>r < next_ref w. store w' r = store w r) \<and>
     (\<forall>r < next_ref w'. next_ref w \<le> r \<longrightarrow>
        queryIdCounter w < id_serial (Query_id w' r) \<and>
        id_serial (Query_id w' r) \<le> queryIdCounter w' \<and>
        md_operations (Query_metadata w' r) = [])"

definition spawned :: "world \<Rightarrow> nat \<Rightarrow> world \<Rightarrow> bool" where
  "spawned w r w' \<longleftrightarrow> extends w w' \<and> next_ref w \<le> r \<and> r < next_ref w'"

text \<open>
  A process that has just loaded the module, in an environment whose clock starts at
  1000 and advances by one per reading; the store holds no instance yet.
\<close>

definition no_instance :: query where
  "no_instance = \<lparr>q_kind = Anonymous JUndefined, q_body = JUndefined,
     q_metadata = \<lparr>md_id = [], md_operations = [], md_created = 0, md_source = None\<rparr>\<rparr>"

definition fresh_process :: world where
  "fresh_process = \<lparr>queryIdCounter = 0, store = (\<lambda>r. no_instance), next_ref = 0, ticks = 0,
     date_now = (\<lambda>n. 1000 + n), math_random = (\<lambda>n. ''k3x9'')\<rparr>"

section \<open>Equality as the specification words it\<close>

text \<open>
  Deep identity of two transmittable values, arrays compared in order and mappings by
  key set and values: the two values are the same once every mapping lists its entries
  in key order.
\<close>

fun canonical :: "jsval \<Rightarrow> jsval" where
  "canonical (JArr f xs) = JArr False (map canonical xs)"
| "canonical (JObj f kvs) = JObj False (sort_key fst (map (\<lambda>(k, v). (k, canonical v)) kvs))"
| "canonical v = v"

definition spec_deep_equal :: "jsval \<Rightarrow> jsval \<Rightarrow> bool" where
  "spec_deep_equal a b = (canonical a = canonical b)"

text \<open>
  \<open>r.gte(18).lte(65)\<close> and \<open>r.lte(65).gte(18)\<close> for one \<open>r = Q.range('age')\<close>, built
  in a fresh process.
\<close>

definition age_ranges :: "(nat \<times> nat \<times> world) result" where
  "age_ranges =
     (let (r, w) = Q_range ''age'' fresh_process in
      and_then (RangeQuery_gte r (JNum 18) w) (\<lambda>(r1, w1).
      and_then (RangeQuery_lte r1 (JNum 65) w1) (\<lambda>(a, w2).
      and_then (RangeQuery_lte r (JNum 65) w2) (\<lambda>(r3, w3).
      and_then (RangeQuery_gte r3 (JNum 18) w3) (\<lambda>(b, w4). Inr (a, b, w4))))))"

section \<open>Serial numbers\<close>

lemma below_ten: "d < 10 \<Longrightarrow> d \<in> {0, 1, 2, 3, 4, 5, 6, 7, 8, 9::nat}"
  by auto

lemma digit_char_props:
  assumes "d < 10"
  shows "undigit (digit_char d) = d" and "digit_char d \<noteq> CHR ''_''"
  using below_ten [OF assms] by (auto simp: digit_char_def undigit_def)

lemma undecimal_snoc: "undecimal (s @ [c]) = 10 * undecimal s + undigit c"
  by (simp add: undecimal_def)

lemma undecimal_decimal: "undecimal (decimal n) = n"
proof (induction n rule: decimal.induct)
  case (1 n)
  show ?case
  proof (cases "n < 10")
    case True
    then show ?thesis
      by (simp add: decimal.simps [of n] undecimal_def digit_char_props)
  next
    case False
    then have "undecimal (decimal (n div 10)) = n div 10" using 1 by simp
    with False show ?thesis
      by (simp add: decimal.simps [of n] undecimal_snoc digit_char_props)
  qed
qed

lemma decimal_no_underscore: "CHR ''_'' \<notin> set (decimal n)"
proof (induction n rule: decimal.induct)
  case (1 n)
  have d: "digit_char (n mod 10) \<noteq> CHR ''_''"
    by (rule digit_char_props) simp
  show ?case
  proof (cases "n < 10")
    case True
    then show ?thesis
      using digit_char_props(2) [of n] by (simp add: decimal.simps [of n])
  next
    case False
    with 1 d show ?thesis
      by (simp add: decimal.simps [of n])
  qed
qed

lemma id_serial_generated:
  "id_serial (CHR ''q'' # CHR ''_'' # decimal n @ CHR ''_'' # rest) = n"
proof -
  have "takeWhile (\<lambda>c. c \<noteq> CHR ''_'') (decimal n @ CHR ''_'' # rest) =
          decimal n @ takeWhile (\<lambda>c. c \<noteq> CHR ''_'') (CHR ''_'' # rest)"
    using decimal_no_underscore [of n] by (intro takeWhile_append2) auto
  then show ?thesis
    by (simp add: id_serial_def undecimal_decimal)
qed

section \<open>Allocation leaves the existing instances alone\<close>

lemma extends_refl: "extends w w"
  by (simp add: extends_def)

lemma extends_trans:
  assumes "extends w1 w2" and "extends w2 w3"
  shows "extends w1 w3"
  unfolding extends_def
proof (intro conjI allI impI)
  show "next_ref w1 \<le> next_ref w3" "queryIdCounter w1 \<le> queryIdCounter w3"
    using assms by (auto simp: extends_def)
next
  fix r assume "r < next_ref w1"
  then show "store w3 r = store w1 r"
    using assms by (auto simp: extends_def)
next
  fix r assume r: "r < next_ref w3" "next_ref w1 \<le> r"
  show "queryIdCounter w1 < id_serial (Query_id w3 r)"
       "id_serial (Query_id w3 r) \<le> queryIdCounter w3"
       "md_operations (Query_metadata w3 r) = []"
  proof -
    consider "r < next_ref w2" | "next_ref w2 \<le> r" by linarith
    then have "queryIdCounter w1 < id_serial (Query_id w3 r) \<and>
       id_serial (Query_id w3 r) \<le> queryIdCounter w3 \<and>
       md_operations (Query_metadata w3 r) = []"
    proof cases
      case 1
      then have "store w3 r = store w2 r" using assms(2) by (simp add: extends_def)
      then have "Query_id w3 r = Query_id w2 r" "Query_metadata w3 r = Query_metadata w2 r"
        by (simp_all add: Query_id_def Query_metadata_def)
      moreover have "queryIdCounter w1 < id_serial (Query_id w2 r) \<and>
           id_serial (Query_id w2 r) \<le> queryIdCounter w2 \<and>
           md_operations (Query_metadata w2 r) = []"
        using assms(1) r 1 by (simp add: extends_def)
      moreover have "queryIdCounter w2 \<le> queryIdCounter w3"
        using assms(2) by (simp add: extends_def)
      ultimately show ?thesis by simp
    next
      case 2
      then have "queryIdCounter w2 < id_serial (Query_id w3 r) \<and>
           id_serial (Query_id w3 r) \<le> queryIdCounter w3 \<and>
           md_operations (Query_metadata w3 r) = []"
        using assms(2) r by (simp add: extends_def)
      moreover have "queryIdCounter w1 \<le> queryIdCounter w2"
        using assms(1) by (simp add: extends_def)
      ultimately show ?thesis by simp
    qed
    then show "queryIdCounter w1 < id_serial (Query_id w3 r)"
       "id_serial (Query_id w3 r) \<le> queryIdCounter w3"
       "md_operations (Query_metadata w3 r) = []" by simp_all
  qed
qed

lemma extends_ids_issued:
  assumes "ids_issued w" and "extends w w'"
  shows "ids_issued w'"
  unfolding ids_issued_def
proof (intro allI impI)
  fix r assume r: "r < next_ref w'"
  show "id_serial (Query_id w' r) \<le> queryIdCounter w'"
  proof (cases "r < next_ref w")
    case True
    then have "store w' r = store w r" using assms(2) by (simp add: extends_def)
    then have "Query_id w' r = Query_id w r" by (simp add: Query_id_def)
    moreover have "id_serial (Query_id w r) \<le> queryIdCounter w"
      using assms(1) True by (simp add: ids_issued_def)
    moreover have "queryIdCounter w \<le> queryIdCounter w'"
      using assms(2) by (simp add: extends_def)
    ultimately show ?thesis by simp
  next
    case False
    then show ?thesis using assms(2) r by (simp add: extends_def)
  qed
qed

lemma recordOperation_extends: "recordOperation m as w = (operation, w') \<Longrightarrow> extends w w'"
  by (auto simp: extends_def recordOperation_def generateOperationId_def Date_now_def
        Math_random_text_def Let_def split: prod.splits)

lemma recordOperation_same:
  "recordOperation m as w = (operation, w') \<Longrightarrow>
     store w' = store w \<and> next_ref w' = next_ref w \<and> queryIdCounter w' = queryIdCounter w"
  by (auto simp: recordOperation_def generateOperationId_def Date_now_def
        Math_random_text_def Let_def split: prod.splits)

lemma Query_constructor_None:
  "Query_constructor c body None w =
     (next_ref w,
      w\<lparr>queryIdCounter := Suc (queryIdCounter w), ticks := Suc (Suc (ticks w)),
        store := (store w)(next_ref w := \<lparr>q_kind = c, q_body = Object_freeze (deepClone body),
           q_metadata = \<lparr>md_id = ''q_'' @ decimal (Suc (queryIdCounter w)) @ ''_'' @
                                 decimal (date_now w (ticks w)),
             md_operations = [], md_created = date_now w (Suc (ticks w)), md_source = None\<rparr>\<rparr>),
        next_ref := Suc (next_ref w)\<rparr>)"
  by (simp add: Query_constructor_def generateId_def Date_now_def Let_def)

lemma Query_constructor_extends:
  assumes "Query_constructor c body None w = (r, w')"
  shows "extends w w'" and "r = next_ref w" and "next_ref w' = Suc (next_ref w)"
    and "q_kind (store w' r) = c"
    and "q_body (store w' r) = Object_freeze (deepClone body)"
proof -
  from assms have "r = fst (Query_constructor c body None w)"
    and w': "w' = snd (Query_constructor c body None w)"
    by simp_all
  then have r: "r = next_ref w" by (simp add: Query_constructor_None)
  show "r = next_ref w" by (rule r)
  show "next_ref w' = Suc (next_ref w)" by (simp add: w' Query_constructor_None)
  show "q_kind (store w' r) = c" by (simp add: w' r Query_constructor_None)
  show "q_body (store w' r) = Object_freeze (deepClone body)"
    by (simp add: w' r Query_constructor_None)
  show "extends w w'"
    by (simp add: extends_def w' Query_constructor_None Query_id_def Query_metadata_def
          id_serial_generated less_Suc_eq)
qed

lemma overwrite_body_extends:
  assumes "extends w w1" and "next_ref w \<le> r"
  shows "extends w (overwrite_body r b w1)"
  using assms by (auto simp: extends_def overwrite_body_def Query_id_def Query_metadata_def)

lemma overwrite_body_fields:
  "next_ref (overwrite_body r b w) = next_ref w"
  "q_body (store (overwrite_body r b w) r) = Object_freeze (deepClone b)"
  "q_kind (store (overwrite_body r b w) r) = q_kind (store w r)"
  by (simp_all add: overwrite_body_def)

lemma and_then_Inr:
  "and_then m f = Inr y \<Longrightarrow> \<exists>x. m = Inr x \<and> f x = Inr y"
  by (cases m) (simp_all add: and_then_def)

lemma Query_constructor_spawned:
  "Query_constructor c body None w = (r, w') \<Longrightarrow> spawned w r w'"
  using Query_constructor_extends [of c body w r w'] by (simp add: spawned_def)

lemma spawned_after: "extends w w1 \<Longrightarrow> spawned w1 r w2 \<Longrightarrow> spawned w r w2"
  using extends_trans [of w w1 w2] by (auto simp: spawned_def extends_def)

lemma spawned_overwrite: "spawned w r w1 \<Longrightarrow> spawned w r (overwrite_body r b w1)"
  by (simp add: spawned_def overwrite_body_extends overwrite_body_fields)

lemma spawned_extends: "spawned w r w' \<Longrightarrow> extends w w'"
  by (simp add: spawned_def)

lemma new_Anonymous_each_extends:
  "new_Anonymous_each vs w = (rs, w') \<Longrightarrow> extends w w'"
proof (induction vs arbitrary: w rs w')
  case Nil
  then show ?case by (simp add: extends_refl)
next
  case (Cons v vs)
  obtain r w1 where a: "new_Anonymous v w = (r, w1)" by (cases "new_Anonymous v w")
  obtain rs' w2 where b: "new_Anonymous_each vs w1 = (rs', w2)"
    by (cases "new_Anonymous_each vs w1")
  from Cons.prems a b have "w' = w2" by simp
  moreover have "extends w w1"
    using a Query_constructor_extends(1) by (simp add: new_Anonymous_def)
  moreover have "extends w1 w2" using Cons.IH b by simp
  ultimately show ?case using extends_trans by blast
qed

lemma TermQuery_clone_spawned:
  assumes "TermQuery_clone this body md w = Inr (r, w')"
  shows "spawned w r w'"
proof -
  obtain field v where
    "(case TermQuery_constructor field (getBaseValue v) w of
        (newQuery, w1) \<Rightarrow> Inr (newQuery, overwrite_body newQuery (merged_body w this body) w1))
     = (Inr (r, w') :: (nat \<times> world) result)"
    using assms unfolding TermQuery_clone_def Let_def
    by (auto dest!: and_then_Inr)
  then obtain w1 where c: "TermQuery_constructor field (getBaseValue v) w = (r, w1)"
    and w': "w' = overwrite_body r (merged_body w this body) w1"
    by (auto simp: Let_def split: prod.splits)
  from c have "spawned w r w1"
    by (simp add: TermQuery_constructor_def Query_constructor_spawned)
  then show ?thesis by (simp add: w' spawned_overwrite)
qed

lemma RangeQuery_clone_spawned:
  assumes "RangeQuery_clone this body md w = Inr (r, w')"
  shows "spawned w r w'"
proof -
  obtain field where
    "(case RangeQuery_constructor field w of
        (newQuery, w1) \<Rightarrow> Inr (newQuery, overwrite_body newQuery (merged_body w this body) w1))
     = (Inr (r, w') :: (nat \<times> world) result)"
    using assms unfolding RangeQuery_clone_def Let_def
    by (auto dest!: and_then_Inr)
  then obtain w1 where c: "RangeQuery_constructor field w = (r, w1)"
    and w': "w' = overwrite_body r (merged_body w this body) w1"
    by (auto simp: Let_def split: prod.splits)
  from c have "spawned w r w1"
    by (simp add: RangeQuery_constructor_def Query_constructor_spawned)
  then show ?thesis by (simp add: w' spawned_overwrite)
qed

lemma BoolQuery_clone_spawned:
  "BoolQuery_clone this body md w = Inr (r, w') \<Longrightarrow> spawned w r w'"
  by (simp add: BoolQuery_clone_def BoolQuery_constructor_def Query_constructor_spawned)

lemma NestedQuery_clone_spawned:
  assumes "NestedQuery_clone this body md w = Inr (r, w')"
  shows "spawned w r w'"
proof -
  obtain path query where
    "(let (tempQuery, w1) = new_Anonymous query w
      in Inr (NestedQuery_of_value path tempQuery w1)) = (Inr (r, w') :: (nat \<times> world) result)"
    using assms unfolding NestedQuery_clone_def Let_def
    by (auto dest!: and_then_Inr)
  then obtain t w1 where a: "new_Anonymous query w = (t, w1)"
    and c: "NestedQuery_of_value path t w1 = (r, w')"
    by (auto simp: Let_def split: prod.splits)
  from a have "extends w w1"
    using Query_constructor_extends(1) by (simp add: new_Anonymous_def)
  moreover from c have "spawned w1 r w'"
    by (simp add: NestedQuery_of_value_def Query_constructor_spawned)
  ultimately show ?thesis by (rule spawned_after)
qed

lemma DisMaxQuery_clone_spawned:
  assumes "DisMaxQuery_clone this body md w = Inr (r, w')"
  shows "spawned w r w'"
proof -
  obtain qs where
    "(let (tempQueries, w1) = new_Anonymous_each qs w
      in Inr (DisMaxQuery_constructor tempQueries w1)) = (Inr (r, w') :: (nat \<times> world) result)"
    using assms unfolding DisMaxQuery_clone_def Let_def
    by (auto dest!: and_then_Inr)
  then obtain ts w1 where a: "new_Anonymous_each qs w = (ts, w1)"
    and c: "DisMaxQuery_constructor ts w1 = (r, w')"
    by (auto simp: Let_def split: prod.splits)
  from a have "extends w w1" by (rule new_Anonymous_each_extends)
  moreover from c have "spawned w1 r w'"
    by (simp add: DisMaxQuery_constructor_def Query_constructor_spawned)
  ultimately show ?thesis by (rule spawned_after)
qed

lemma BoostingQuery_clone_spawned:
  assumes "BoostingQuery_clone this body md w = Inr (r, w')"
  shows "spawned w r w'"
proof -
  obtain positive negative nb where
    "(let (tempPositive, w1) = new_Anonymous positive w;
          (tempNegative, w2) = new_Anonymous negative w1
      in Inr (BoostingQuery_constructor tempPositive tempNegative nb w2)) =
     (Inr (r, w') :: (nat \<times> world) result)"
    using assms unfolding BoostingQuery_clone_def Let_def
    by (auto dest!: and_then_Inr)
  then obtain p w1 n w2 where a: "new_Anonymous positive w = (p, w1)"
    and b: "new_Anonymous negative w1 = (n, w2)"
    and c: "BoostingQuery_constructor p n nb w2 = (r, w')"
    by (auto simp: Let_def split: prod.splits)
  from a have "extends w w1"
    using Query_constructor_extends(1) by (simp add: new_Anonymous_def)
  moreover from b have "extends w1 w2"
    using Query_constructor_extends(1) by (simp add: new_Anonymous_def)
  ultimately have "extends w w2" by (rule extends_trans)
  moreover from c have "spawned w2 r w'"
    by (simp add: BoostingQuery_constructor_def Query_constructor_spawned)
  ultimately show ?thesis by (rule spawned_after)
qed

lemma clone_spawned:
  assumes "clone this body md w = Inr (r, w')" and "is_variant (q_kind (store w this))"
  shows "spawned w r w'"
  using assms
  by (cases "q_kind (store w this)")
     (simp_all add: clone_def TermQuery_clone_spawned BoolQuery_clone_spawned
        RangeQuery_clone_spawned NestedQuery_clone_spawned DisMaxQuery_clone_spawned
        BoostingQuery_clone_spawned)

lemma createNew_spawned:
  assumes "createNew this newBody operation w = Inr (r, w')"
    and "is_variant (q_kind (store w this))"
  shows "spawned w r w'"
  using assms clone_spawned by (simp add: createNew_def Let_def)

lemma recorded_createNew:
  assumes "recordOperation m as w = (operation, w1)"
    and "createNew this nb (Some operation) w1 = Inr (r, w')"
    and "is_variant (q_kind (store w this))"
  shows "spawned w r w'"
proof -
  have "store w1 = store w" using assms(1) recordOperation_same by blast
  then have "spawned w1 r w'" using assms(2,3) createNew_spawned by simp
  moreover have "extends w w1" using assms(1) by (rule recordOperation_extends)
  ultimately show ?thesis using spawned_after by blast
qed

lemma TermQuery_boost_spawned:
  "TermQuery_boost q v w = Inr (r, w') \<Longrightarrow> is_variant (q_kind (store w q)) \<Longrightarrow> spawned w r w'"
  unfolding TermQuery_boost_def Let_def
  by (auto split: prod.splits dest!: and_then_Inr intro: recorded_createNew)

lemma TermQuery_caseInsensitive_spawned:
  "TermQuery_caseInsensitive q v w = Inr (r, w') \<Longrightarrow> is_variant (q_kind (store w q)) \<Longrightarrow> spawned w r w'"
  unfolding TermQuery_caseInsensitive_def Let_def
  by (auto split: prod.splits dest!: and_then_Inr intro: recorded_createNew)

lemma add_clauses_spawned:
  "add_clauses m k q a w = Inr (r, w') \<Longrightarrow> is_variant (q_kind (store w q)) \<Longrightarrow> spawned w r w'"
  unfolding add_clauses_def Let_def
  by (auto split: prod.splits dest!: and_then_Inr intro: recorded_createNew)

lemma bool_option_spawned:
  "bool_option m k q v w = Inr (r, w') \<Longrightarrow> is_variant (q_kind (store w q)) \<Longrightarrow> spawned w r w'"
  unfolding bool_option_def Let_def
  by (auto split: prod.splits dest!: and_then_Inr intro: recorded_createNew)

lemma range_option_spawned:
  "range_option m k q v w = Inr (r, w') \<Longrightarrow> is_variant (q_kind (store w q)) \<Longrightarrow> spawned w r w'"
  unfolding range_option_def Let_def
  by (auto split: prod.splits dest!: and_then_Inr intro: recorded_createNew)

lemma RangeQuery_between_spawned:
  "RangeQuery_between q lo hi i w = Inr (r, w') \<Longrightarrow> is_variant (q_kind (store w q)) \<Longrightarrow>
     spawned w r w'"
  unfolding RangeQuery_between_def Let_def
  by (auto split: prod.splits if_splits dest!: and_then_Inr intro: recorded_createNew)

lemma nested_option_spawned:
  "nested_option m k a v q w = Inr (r, w') \<Longrightarrow> is_variant (q_kind (store w q)) \<Longrightarrow>
     spawned w r w'"
  unfolding nested_option_def Let_def
  by (auto split: prod.splits dest!: and_then_Inr intro: recorded_createNew)

lemma DisMaxQuery_query_spawned:
  "DisMaxQuery_query q x w = Inr (r, w') \<Longrightarrow> is_variant (q_kind (store w q)) \<Longrightarrow> spawned w r w'"
  unfolding DisMaxQuery_query_def Let_def
  by (auto split: prod.splits dest!: and_then_Inr intro: recorded_createNew)

lemma DisMaxQuery_addQueries_spawned:
  "DisMaxQuery_addQueries q xs w = Inr (r, w') \<Longrightarrow> is_variant (q_kind (store w q)) \<Longrightarrow>
     spawned w r w'"
  unfolding DisMaxQuery_addQueries_def Let_def
  by (auto split: prod.splits dest!: and_then_Inr intro: recorded_createNew)

lemma DisMaxQuery_boost_spawned:
  "DisMaxQuery_boost q v w = Inr (r, w') \<Longrightarrow> is_variant (q_kind (store w q)) \<Longrightarrow> spawned w r w'"
  unfolding DisMaxQuery_boost_def Let_def
  by (auto split: prod.splits dest!: and_then_Inr intro: recorded_createNew)

lemma boosting_side_spawned:
  "boosting_side k q x w = Inr (r, w') \<Longrightarrow> is_variant (q_kind (store w q)) \<Longrightarrow> spawned w r w'"
  unfolding boosting_side_def Let_def
  by (auto split: prod.splits dest!: and_then_Inr intro: recorded_createNew)

lemma DisMaxQuery_tieBreaker_spawned:
  "DisMaxQuery_tieBreaker q v w = Inr (r, w') \<Longrightarrow> is_variant (q_kind (store w q)) \<Longrightarrow> spawned w r w'"
  unfolding DisMaxQuery_tieBreaker_def Let_def
  by (auto split: prod.splits if_splits dest!: and_then_Inr intro: recorded_createNew)

lemma BoostingQuery_negativeBoost_spawned:
  "BoostingQuery_negativeBoost q v w = Inr (r, w') \<Longrightarrow> is_variant (q_kind (store w q)) \<Longrightarrow> spawned w r w'"
  unfolding BoostingQuery_negativeBoost_def Let_def
  by (auto split: prod.splits if_splits dest!: and_then_Inr intro: recorded_createNew)

lemma call_spawned:
  assumes "call m q w = Inr (r, w')" and "is_variant (q_kind (store w q))"
  shows "spawned w r w'"
  using assms
  by (cases m)
     (simp_all add: TermQuery_boost_spawned TermQuery_caseInsensitive_spawned
        BoolQuery_must_def BoolQuery_should_def BoolQuery_filter_def BoolQuery_mustNot_def
        add_clauses_spawned BoolQuery_boost_def BoolQuery_minimumShouldMatch_def
        bool_option_spawned
        RangeQuery_gte_def RangeQuery_gt_def RangeQuery_lte_def RangeQuery_lt_def
        RangeQuery_boost_def RangeQuery_format_def RangeQuery_timeZone_def
        RangeQuery_relation_def range_option_spawned RangeQuery_between_spawned
        NestedQuery_path_def NestedQuery_query_def NestedQuery_scoreMode_def
        NestedQuery_boost_def NestedQuery_ignoreUnmapped_def NestedQuery_innerHits_def
        nested_option_spawned DisMaxQuery_query_spawned DisMaxQuery_addQueries_spawned
        DisMaxQuery_boost_spawned DisMaxQuery_tieBreaker_spawned
        BoostingQuery_positive_def BoostingQuery_negative_def boosting_side_spawned
        BoostingQuery_negativeBoost_spawned)

section \<open>Evaluation on concrete inputs\<close>

text \<open>The definitions a concrete run unfolds.\<close>

lemmas evaluation =
  Q_term_def Q_range_def Q_bool_def Q_nested_def Q_boosting_def Q_exists_def
  TermQuery_constructor_def BoolQuery_constructor_def RangeQuery_constructor_def
  NestedQuery_constructor_def NestedQuery_of_value_def DisMaxQuery_constructor_def
  BoostingQuery_constructor_def new_Anonymous_def Query_constructor_None
  fresh_process_def no_instance_def
  recordOperation_def Date_now_def generateOperationId_def Math_random_text_def
  serializeArgs_def Let_def and_then_def first_entry_def first_value_def createNew_def
  clone_def TermQuery_clone_def BoolQuery_clone_def RangeQuery_clone_def
  NestedQuery_clone_def DisMaxQuery_clone_def BoostingQuery_clone_def
  merged_body_def spread_into_def getBaseValue_def or_else_def
  overwrite_body_def lookup_prop_def has_prop_def
  toJSON_def Query_metadata_def Query_id_def
  TermQuery_boost_def TermQuery_caseInsensitive_def add_clauses_def BoolQuery_must_def
  BoolQuery_should_def BoolQuery_filter_def BoolQuery_mustNot_def BoolQuery_boost_def
  bool_option_def
  range_option_def RangeQuery_gte_def RangeQuery_gt_def RangeQuery_lte_def RangeQuery_lt_def
  NestedQuery_boost_def nested_option_def DisMaxQuery_query_def DisMaxQuery_tieBreaker_def
  BoostingQuery_negativeBoost_def

section \<open>Conditional application\<close>

text \<open>
  C8. \<open>when\<close> with a falsy condition returns the receiver itself, the same reference in
  an unchanged process, and with a truthy condition exactly what the callback returns on
  the receiver; \<open>unless\<close> does the same with the condition negated.
\<close>

theorem when_unless_identity:
  "(\<not> truthy c \<longrightarrow> Query_when q c fn w = Inr (q, w)) \<and>
   (truthy c \<longrightarrow> Query_when q c fn w = fn q w) \<and>
   (truthy c \<longrightarrow> Query_unless q c fn w = Inr (q, w)) \<and>
   (\<not> truthy c \<longrightarrow> Query_unless q c fn w = fn q w)"
  by (simp add: Query_when_def Query_unless_def)

theorem when_unless_identity_witness:
  "(let (q, w) = Q_bool fresh_process
    in \<not> truthy (JNum 0) \<and> truthy (JStr ''x'') \<and>
       Query_when q (JNum 0) (call (Bool_boost 2)) w = Inr (q, w) \<and>
       Query_unless q (JNum 0) (call (Bool_boost 2)) w = call (Bool_boost 2) q w \<and>
       Query_when q (JStr ''x'') (call (Bool_boost 2)) w = call (Bool_boost 2) q w \<and>
       Query_unless q (JStr ''x'') (call (Bool_boost 2)) w = Inr (q, w) \<and>
       (case call (Bool_boost 2) q w of
          Inl e \<Rightarrow> False
        | Inr (q', w') \<Rightarrow>
            q' \<noteq> q \<and> toJSON w' q' = obj [(''bool'', obj [(''boost'', JNum 2)])]))"
proof -
  define w where "w = snd (Q_bool fresh_process)"
  have q: "Q_bool fresh_process = (0, w)" by (simp add: w_def evaluation)
  have run: "(case call (Bool_boost 2) 0 w of
                Inl e \<Rightarrow> False
              | Inr (q', w') \<Rightarrow>
                  q' \<noteq> 0 \<and> toJSON w' q' = obj [(''bool'', obj [(''boost'', JNum 2)])])"
    by (simp add: w_def evaluation)
  show ?thesis
    using when_unless_identity [of "JNum 0" 0 "call (Bool_boost 2)" w]
          when_unless_identity [of "JStr ''x''" 0 "call (Bool_boost 2)" w]
          q run
    by simp
qed

section \<open>Mutators return new instances\<close>

text \<open>
  C3. Whenever a mutator call on an instance \<open>q\<close> of one of the classes returns, the
  instance returned is not \<open>q\<close>, its id differs from the id of \<open>q\<close>, and \<open>q\<close> is the
  same afterwards: the stored instance is unchanged, and so is what \<open>toJSON\<close> gives.
\<close>

theorem mutator_returns_distinct_instance:
  assumes "ids_issued w" and "q < next_ref w" and "is_variant (q_kind (store w q))"
    and "call m q w = Inr (q', w')"
  shows "q' \<noteq> q \<and> Query_id w' q' \<noteq> Query_id w q \<and>
         store w' q = store w q \<and> toJSON w' q = toJSON w q"
proof -
  have s: "spawned w q' w'" using assms(4,3) by (rule call_spawned)
  then have fresh: "next_ref w \<le> q'" "q' < next_ref w'" and e: "extends w w'"
    by (simp_all add: spawned_def)
  from fresh assms(2) have "q' \<noteq> q" by simp
  moreover have same: "store w' q = store w q"
    using e assms(2) by (simp add: extends_def)
  moreover have "toJSON w' q = toJSON w q"
    unfolding toJSON_def same by (rule refl)
  moreover have "Query_id w' q' \<noteq> Query_id w q"
  proof -
    have "queryIdCounter w < id_serial (Query_id w' q')"
      using e fresh by (simp add: extends_def)
    moreover have "id_serial (Query_id w q) \<le> queryIdCounter w"
      using assms(1,2) by (simp add: ids_issued_def)
    ultimately show ?thesis by auto
  qed
  ultimately show ?thesis by simp
qed

theorem mutator_returns_distinct_instance_witness:
  "(let (q, w) = Q_term ''status'' (JStr ''active'') fresh_process
    in ids_issued w \<and> q < next_ref w \<and> is_variant (q_kind (store w q)) \<and>
       (case call (Term_boost 2) q w of
          Inl e \<Rightarrow> False
        | Inr (q', w') \<Rightarrow>
            q' \<noteq> q \<and> Query_id w' q' \<noteq> Query_id w q \<and>
            store w' q = store w q \<and> toJSON w' q = toJSON w q))"
proof -
  define w where "w = snd (Q_term ''status'' (JStr ''active'') fresh_process)"
  have q: "Q_term ''status'' (JStr ''active'') fresh_process = (0, w)"
    by (simp add: w_def evaluation)
  have h1: "ids_issued w"
    by (simp add: w_def ids_issued_def evaluation id_serial_generated)
  have h2: "0 < next_ref w" by (simp add: w_def evaluation)
  have h3: "is_variant (q_kind (store w 0))" by (simp add: w_def evaluation)
  have "\<exists>q' w'. call (Term_boost 2) 0 w = Inr (q', w')"
    by (simp add: w_def evaluation)
  then obtain q' w' where c: "call (Term_boost 2) 0 w = Inr (q', w')" by blast
  from mutator_returns_distinct_instance [OF h1 h2 h3 c] show ?thesis
    using q h1 h2 h3 c by simp
qed

section \<open>Shorthand promotion in TermQuery\<close>

lemma deepClone_scalar: "\<not> is_object v \<Longrightarrow> deepClone v = v"
  by (cases v) simp_all

text \<open>
  C6. A term query built on a scalar value, for a field name other than \<open>__proto__\<close>
  and \<open>hasOwnProperty\<close>, serializes as \<open>{term: {field: value}}\<close>.
  \<open>boost(n)\<close> on it returns an instance that serializes the field as
  \<open>{value: value, boost: n}\<close>, and \<open>caseInsensitive(b)\<close> on that one returns an instance
  with \<open>{value: value, boost: n, case_insensitive: b}\<close>: the value and the boost are kept.
  Both calls return.
\<close>

theorem shorthand_promotion:
  assumes "ordinary_key field" and "\<not> is_object v"
  shows "(let (q, w1) = TermQuery_constructor field v w
          in toJSON w1 q = obj [(''term'', obj [(field, v)])] \<and>
             (case TermQuery_boost q n w1 of
                Inl e \<Rightarrow> False
              | Inr (q2, w2) \<Rightarrow>
                  toJSON w2 q2 =
                    obj [(''term'', obj [(field, obj [(''value'', v), (''boost'', JNum n)])])] \<and>
                  (case TermQuery_caseInsensitive q2 b w2 of
                     Inl e \<Rightarrow> False
                   | Inr (q3, w3) \<Rightarrow>
                       toJSON w3 q3 =
                         obj [(''term'',
                               obj [(field, obj [(''value'', v), (''boost'', JNum n),
                                                 (''case_insensitive'', JBool b)])])])))"
  using assms by (simp add: evaluation deepClone_scalar)

theorem shorthand_promotion_witness:
  "ordinary_key ''status'' \<and> \<not> is_object (JStr ''active'') \<and>
   (let (q, w1) = TermQuery_constructor ''status'' (JStr ''active'') fresh_process
    in toJSON w1 q = obj [(''term'', obj [(''status'', JStr ''active'')])] \<and>
       (case TermQuery_boost q 2 w1 of
          Inl e \<Rightarrow> False
        | Inr (q2, w2) \<Rightarrow>
            toJSON w2 q2 =
              obj [(''term'',
                    obj [(''status'', obj [(''value'', JStr ''active''), (''boost'', JNum 2)])])] \<and>
            (case TermQuery_caseInsensitive q2 True w2 of
               Inl e \<Rightarrow> False
             | Inr (q3, w3) \<Rightarrow>
                 toJSON w3 q3 =
                   obj [(''term'',
                         obj [(''status'', obj [(''value'', JStr ''active''), (''boost'', JNum 2),
                                                (''case_insensitive'', JBool True)])])])))"
  using shorthand_promotion [of "''status''" "JStr ''active''" fresh_process 2 True]
  by (simp add: ordinary_key_def)

section \<open>Q.exists of the small factory\<close>

text \<open>
  C10. For a field name other than \<open>__proto__\<close> and \<open>hasOwnProperty\<close>,
  \<open>Q.exists(field)\<close> returns a RangeQuery whose body is
  \<open>{range: {field: {gte: null}}}\<close>; \<open>hasBounds()\<close> is true on it, because \<open>null\<close> is
  not \<open>undefined\<close>, and \<open>Q.validate\<close> reports it valid with no error. By contrast
  \<open>Q.range(field)\<close>, with no bound at all, has \<open>hasBounds()\<close> false and is reported
  with the error \<open>Range query has no bounds set\<close>.
\<close>

theorem exists_is_a_bounded_range:
  assumes "ordinary_key field"
  shows "(case Q_exists field w of
            Inl e \<Rightarrow> False
          | Inr (r, w') \<Rightarrow>
              q_kind (store w' r) = RangeQuery \<and>
              toJSON w' r = obj [(''range'', obj [(field, obj [(''gte'', JNull)])])] \<and>
              RangeQuery_hasBounds w' r = Inr True \<and>
              Q_validate w' r = \<lparr>valid = True, errors = []\<rparr>) \<and>
         (let (r, w') = Q_range field w
          in q_kind (store w' r) = RangeQuery \<and>
             toJSON w' r = obj [(''range'', obj [(field, obj [])])] \<and>
             RangeQuery_hasBounds w' r = Inr False \<and>
             Q_validate w' r = \<lparr>valid = False, errors = [''Range query has no bounds set'']\<rparr>)"
  using assms
  by (simp add: evaluation RangeQuery_hasBounds_def RangeQuery_getBounds_def Q_validate_def)

theorem exists_is_a_bounded_range_witness:
  "ordinary_key ''email'' \<and>
   (case Q_exists ''email'' fresh_process of
      Inl e \<Rightarrow> False
    | Inr (r, w') \<Rightarrow>
        q_kind (store w' r) = RangeQuery \<and>
        toJSON w' r = obj [(''range'', obj [(''email'', obj [(''gte'', JNull)])])] \<and>
        RangeQuery_hasBounds w' r = Inr True \<and>
        Q_validate w' r = \<lparr>valid = True, errors = []\<rparr>) \<and>
   (let (r, w') = Q_range ''email'' fresh_process
    in q_kind (store w' r) = RangeQuery \<and>
       toJSON w' r = obj [(''range'', obj [(''email'', obj [])])] \<and>
       RangeQuery_hasBounds w' r = Inr False \<and>
       Q_validate w' r = \<lparr>valid = False, errors = [''Range query has no bounds set'']\<rparr>)"
  using exists_is_a_bounded_range [of "''email''" fresh_process]
  by (simp add: ordinary_key_def)

section \<open>What clone loses\<close>

text \<open>
  C1, at the inputs \<open>Q.nested('user', Q.term('a', 1)).boost(2)\<close> and
  \<open>new DisMaxQuery([]).query(Q.term('a', 1))\<close>: the instance returned serializes
  as the receiver does. The boost is not in the nested body, and the query is not in
  the queries array.
\<close>

theorem nested_boost_and_dis_max_query_are_dropped:
  "(let (t, w) = Q_term ''a'' (JNum 1) fresh_process;
        (n, w1) = Q_nested ''user'' t w
    in case NestedQuery_boost n 2 w1 of
         Inl e \<Rightarrow> False
       | Inr (n', w2) \<Rightarrow>
           toJSON w2 n' =
             obj [(''nested'', obj [(''path'', JStr ''user''),
                                    (''query'', obj [(''term'', obj [(''a'', JNum 1)])])])] \<and>
           and_then (get_prop (toJSON w2 n') ''nested'') (\<lambda>x. get_prop x ''boost'') =
             Inr JUndefined) \<and>
   (let (t, w) = Q_term ''a'' (JNum 1) fresh_process;
        (d, w1) = DisMaxQuery_constructor [] w
    in case DisMaxQuery_query d t w1 of
         Inl e \<Rightarrow> False
       | Inr (d', w2) \<Rightarrow>
           toJSON w1 d = obj [(''dis_max'', obj [(''queries'', arr [])])] \<and>
           toJSON w2 t = obj [(''term'', obj [(''a'', JNum 1)])] \<and>
           toJSON w2 d' = obj [(''dis_max'', obj [(''queries'', arr [])])])"
  by (simp add: evaluation)

text \<open>
  C2, at the input \<open>Q.term('status', 'active').boost(2)\<close>: the operation list of the
  instance returned is empty, as the receiver's is; the recorded \<open>boost\<close> operation is
  not in it. The new instance does have its own id and its own creation time.
\<close>

theorem boost_leaves_operation_log_empty:
  "(let (q, w) = Q_term ''status'' (JStr ''active'') fresh_process
    in case TermQuery_boost q 2 w of
         Inl e \<Rightarrow> False
       | Inr (q', w') \<Rightarrow>
           md_operations (Query_metadata w q) = [] \<and>
           md_operations (Query_metadata w' q') = [] \<and>
           Query_id w' q' = ''q_2_1005'' \<and> Query_id w q = ''q_1_1000'' \<and>
           md_created (Query_metadata w' q') = 1006)"
  by (simp add: evaluation decimal.simps digit_char_def)

section \<open>Range check of the boosting ratio\<close>

text \<open>
  C5, at the input \<open>Q.boosting(Q.term('a', 1), Q.term('b', 2), 1.5)\<close>: the
  constructor returns an instance whose \<open>negative_boost\<close> is 1.5, where the mutator
  \<open>negativeBoost(1.5)\<close> on that instance throws.
\<close>

theorem boosting_constructor_accepts_ratio_above_one:
  "(let (p, w) = Q_term ''a'' (JNum 1) fresh_process;
        (n, w1) = Q_term ''b'' (JNum 2) w;
        (b, w2) = Q_boosting p n (JNum (15 / 10)) w1
    in toJSON w2 b =
         obj [(''boosting'',
               obj [(''positive'', obj [(''term'', obj [(''a'', JNum 1)])]),
                    (''negative'', obj [(''term'', obj [(''b'', JNum 2)])]),
                    (''negative_boost'', JNum (15 / 10))])] \<and>
       BoostingQuery_negativeBoost b (15 / 10) w2 =
         Inl (Error ''Negative boost must be between 0 and 1''))"
  by (simp add: evaluation)

section \<open>Embedding is by value\<close>

lemma deepClone_idem: "deepClone (deepClone v) = deepClone v"
  by (induction v rule: deepClone.induct) auto

lemma deepClone_Object_freeze: "deepClone (Object_freeze v) = deepClone v"
  by (cases v) simp_all

lemma toJSON_stored:
  "is_variant (q_kind (store w r)) \<Longrightarrow> toJSON w r = deepClone (q_body (store w r))"
  by (cases "q_kind (store w r)") (simp_all add: toJSON_def)

lemma toJSON_same_store: "store w' r = store w r \<Longrightarrow> toJSON w' r = toJSON w r"
  by (simp add: toJSON_def cong: kind.case_cong)

lemma lookup_prop_head: "lookup_prop ((k, v) # kvs) k = v"
  by (simp add: lookup_prop_def)

lemma lookup_prop_set_prop: "lookup_prop (set_prop k v kvs) k = v"
  by (induction kvs) (auto simp: lookup_prop_def)

lemma set_prop_deepClone:
  "map (\<lambda>(k, v). (k, deepClone v)) (set_prop k x kvs) =
     set_prop k (deepClone x) (map (\<lambda>(k, v). (k, deepClone v)) kvs)"
  by (induction kvs) auto

text \<open>
  C9. \<open>must(s)\<close>, \<open>should(s)\<close>, \<open>filter(s)\<close> or \<open>mustNot(s)\<close> on a bool query returns
  a compound whose clause array under the method's key is the former array with the
  serialized body of \<open>s\<close> appended, as a value. Whatever mutator is
  then called on \<open>s\<close>, it returns another instance than \<open>s\<close>, and every instance
  that existed before the call, this compound and any other one that embeds \<open>s\<close>,
  serializes as before.
\<close>

theorem embedded_copy_is_detached:
  assumes "q_kind (store w b) = BoolQuery"
    and "q_body (store w b) = JObj True [(''bool'', JObj f kvs)]"
    and "spread_elements (or_else (lookup_prop kvs key) (arr [])) = Inr current"
    and "s < next_ref w" and "is_variant (q_kind (store w s))"
  shows "(case add_clauses method key b (One s) w of
            Inl e \<Rightarrow> False
          | Inr (c, w1) \<Rightarrow>
              c < next_ref w1 \<and>
              and_then (get_prop (toJSON w1 c) ''bool'') (\<lambda>x. get_prop x key) =
                Inr (arr (map deepClone current @ [toJSON w s])) \<and>
              (\<forall>m s' w2. call m s w1 = Inr (s', w2) \<longrightarrow>
                 s' \<noteq> s \<and> (\<forall>c' < next_ref w1. toJSON w2 c' = toJSON w1 c')))"
proof -
  let ?new = "arr (current @ [toJSON w s])"
  let ?nb = "obj [(''bool'', obj (set_prop key ?new kvs))]"
  obtain operation w0 where rec: "recordOperation method [Instance s] w = (operation, w0)"
    by (cases "recordOperation method [Instance s] w")
  have same: "store w0 = store w" "next_ref w0 = next_ref w"
    using recordOperation_same [OF rec] by simp_all
  define c where "c = fst (BoolQuery_constructor ?nb w0)"
  define w1 where "w1 = snd (BoolQuery_constructor ?nb w0)"
  have built: "Query_constructor BoolQuery ?nb None w0 = (c, w1)"
    by (simp add: c_def w1_def BoolQuery_constructor_def spread_into_def)
  have must: "add_clauses method key b (One s) w = Inr (c, w1)"
    using assms(1,2,3) rec
    by (simp add: add_clauses_def and_then_def createNew_def clone_def
          same BoolQuery_clone_def merged_body_def spread_into_def c_def w1_def
          lookup_prop_head Let_def)
  have ext: "extends w0 w1" and c: "c = next_ref w0"
    and body: "q_body (store w1 c) = Object_freeze (deepClone ?nb)"
    and kind: "q_kind (store w1 c) = BoolQuery"
    and top: "next_ref w1 = Suc (next_ref w0)"
    using Query_constructor_extends [OF built] by simp_all
  have "toJSON w1 c = deepClone ?nb"
    by (simp add: toJSON_def kind body del: deepClone.simps Object_freeze.simps)
       (simp add: deepClone_Object_freeze deepClone_idem del: deepClone.simps)
  moreover have "deepClone (toJSON w s) = toJSON w s"
    using assms(5) by (simp add: toJSON_stored deepClone_idem)
  ultimately have content:
    "and_then (get_prop (toJSON w1 c) ''bool'') (\<lambda>x. get_prop x key) =
       Inr (arr (map deepClone current @ [toJSON w s]))"
    by (simp add: and_then_def lookup_prop_head set_prop_deepClone lookup_prop_set_prop)
  have frame: "s' \<noteq> s \<and> (\<forall>c' < next_ref w1. toJSON w2 c' = toJSON w1 c')"
    if call: "call m s w1 = Inr (s', w2)" for m s' w2
  proof -
    have s_kept: "store w1 s = store w s"
      using ext assms(4) same by (simp add: extends_def)
    then have "is_variant (q_kind (store w1 s))" using assms(5) by simp
    with call have sp: "spawned w1 s' w2" by (rule call_spawned)
    have "s < next_ref w1" using ext assms(4) same by (simp add: extends_def)
    with sp have "s' \<noteq> s" by (auto simp: spawned_def)
    moreover have "\<forall>c' < next_ref w1. toJSON w2 c' = toJSON w1 c'"
      using sp by (auto simp: spawned_def extends_def intro: toJSON_same_store)
    ultimately show ?thesis by simp
  qed
  have "c < next_ref w1" using c top by simp
  then show ?thesis using must content frame by simp
qed

theorem embedded_copy_is_detached_witness:
  "(let (b, w0) = Q_bool fresh_process;
        (s, w) = Q_term ''active'' (JBool True) w0
    in q_kind (store w b) = BoolQuery \<and>
       q_body (store w b) = JObj True [(''bool'', JObj False [])] \<and>
       spread_elements (or_else (lookup_prop [] ''must'') (arr [])) = Inr [] \<and>
       s < next_ref w \<and> is_variant (q_kind (store w s)) \<and>
       (case BoolQuery_must b (One s) w of
          Inl e \<Rightarrow> False
        | Inr (c, w1) \<Rightarrow>
            c < next_ref w1 \<and>
            and_then (get_prop (toJSON w1 c) ''bool'') (\<lambda>x. get_prop x ''must'') =
              Inr (arr [obj [(''term'', obj [(''active'', JBool True)])]]) \<and>
            (case call (Term_boost 2) s w1 of
               Inl e \<Rightarrow> False
             | Inr (s', w2) \<Rightarrow> s' \<noteq> s \<and> toJSON w2 c = toJSON w1 c)))"
proof -
  define w0 where "w0 = snd (Q_bool fresh_process)"
  define w where "w = snd (Q_term ''active'' (JBool True) w0)"
  have q: "Q_bool fresh_process = (0, w0)" "Q_term ''active'' (JBool True) w0 = (1, w)"
    by (simp_all add: w_def w0_def evaluation)
  have h1: "q_kind (store w 0) = BoolQuery" by (simp add: w_def w0_def evaluation)
  have h2: "q_body (store w 0) = JObj True [(''bool'', JObj False [])]"
    by (simp add: w_def w0_def evaluation)
  have h3: "spread_elements (or_else (lookup_prop [] ''must'') (arr [])) = Inr []"
    by (simp add: or_else_def lookup_prop_def)
  have h4: "1 < next_ref w" by (simp add: w_def w0_def evaluation)
  have h5: "is_variant (q_kind (store w 1))" by (simp add: w_def w0_def evaluation)
  have t: "toJSON w 1 = obj [(''term'', obj [(''active'', JBool True)])]"
    by (simp add: w_def w0_def evaluation)
  obtain c w1 where m: "BoolQuery_must 0 (One 1) w = Inr (c, w1)"
    and c: "c < next_ref w1"
    and inner: "and_then (get_prop (toJSON w1 c) ''bool'') (\<lambda>x. get_prop x ''must'') =
                   Inr (arr (map deepClone [] @ [toJSON w 1]))"
    and later: "\<forall>m s' w2. call m 1 w1 = Inr (s', w2) \<longrightarrow>
                  s' \<noteq> 1 \<and> (\<forall>c' < next_ref w1. toJSON w2 c' = toJSON w1 c')"
    using embedded_copy_is_detached [OF h1 h2 h3 h4 h5, of "''must''"]
    by (auto simp: BoolQuery_must_def split: sum.splits)
  have "\<exists>s' w2. call (Term_boost 2) 1 w1 = Inr (s', w2)"
  proof -
    have "store w1 1 = store w 1"
      using add_clauses_spawned [of "''must''" "''must''" 0 "One 1" w c w1] m h1 h4
      by (simp add: BoolQuery_must_def spawned_def extends_def)
    then show ?thesis
      by (simp add: w_def w0_def evaluation)
  qed
  then obtain s' w2 where b: "call (Term_boost 2) 1 w1 = Inr (s', w2)" by blast
  with later c have "s' \<noteq> 1 \<and> toJSON w2 c = toJSON w1 c" by blast
  then show ?thesis
    using q h1 h2 h3 h4 h5 m c inner b t by simp
qed

section \<open>How deep the freeze goes\<close>

text \<open>
  C4, at the input \<open>new DisMaxQuery([Q.term('a', 1)])\<close>: the stored body is a deep
  copy with only its top-level object frozen. An assignment to the top-level property
  fails, but pushing onto the inner \<open>queries\<close> array (the array \<open>getQueries()\<close> hands
  out) and assigning inside an embedded query both go through and change the stored
  body.
\<close>

theorem freeze_stops_at_the_top_level:
  "(let (t, w) = Q_term ''a'' (JNum 1) fresh_process;
        (d, w1) = DisMaxQuery_constructor [t] w
    in q_body (store w1 d) =
         JObj True [(''dis_max'',
                     obj [(''queries'', arr [obj [(''term'', obj [(''a'', JNum 1)])]])])] \<and>
       assign_at (q_body (store w1 d)) [] ''dis_max'' JNull = Inl TypeError \<and>
       assign_at (q_body (store w1 d)) [''dis_max'', ''queries''] ''1''
           (obj [(''match_all'', obj [])]) =
         Inr (JObj True [(''dis_max'',
                obj [(''queries'', arr [obj [(''term'', obj [(''a'', JNum 1)])],
                                        obj [(''match_all'', obj [])]])])]) \<and>
       assign_at (q_body (store w1 d)) [''dis_max'', ''queries'', ''0'', ''term''] ''a''
           (JNum 2) =
         Inr (JObj True [(''dis_max'',
                obj [(''queries'', arr [obj [(''term'', obj [(''a'', JNum 2)])]])])]))"
  by (simp add: evaluation indexed_def decimal.simps digit_char_def upt_rec)

section \<open>What equals compares\<close>

lemma age_ranges_run:
  "\<exists>w. age_ranges = Inr (2, 4, w) \<and>
     toJSON w 2 = obj [(''range'', obj [(''age'', obj [(''gte'', JNum 18), (''lte'', JNum 65)])])] \<and>
     toJSON w 4 = obj [(''range'', obj [(''age'', obj [(''lte'', JNum 65), (''gte'', JNum 18)])])]"
  by (simp add: age_ranges_def evaluation)

lemma keys_in_order: "(''gte'' :: string) \<le> ''lte''" "\<not> (''lte'' :: string) \<le> ''gte''"
  by simp_all

text \<open>
  C7, at the input \<open>r.gte(18).lte(65).equals(r.lte(65).gte(18))\<close> for one
  \<open>r = Q.range('age')\<close>: the two serialized bodies have the same keys and the same
  values, so they are deeply identical as mappings, and \<open>equals\<close> answers false,
  because \<open>JSON.stringify\<close> lists the keys \<open>gte\<close> and \<open>lte\<close> in the order in which
  they were added.
\<close>

theorem equals_is_sensitive_to_key_order:
  "(case age_ranges of
      Inl e \<Rightarrow> False
    | Inr (a, b, w) \<Rightarrow>
        toJSON w a =
          obj [(''range'', obj [(''age'', obj [(''gte'', JNum 18), (''lte'', JNum 65)])])] \<and>
        toJSON w b =
          obj [(''range'', obj [(''age'', obj [(''lte'', JNum 65), (''gte'', JNum 18)])])] \<and>
        spec_deep_equal (toJSON w a) (toJSON w b) \<and> \<not> equals w a b)"
proof -
  obtain w where r: "age_ranges = Inr (2, 4, w)"
    and a: "toJSON w 2 = obj [(''range'', obj [(''age'', obj [(''gte'', JNum 18), (''lte'', JNum 65)])])]"
    and b: "toJSON w 4 = obj [(''range'', obj [(''age'', obj [(''lte'', JNum 65), (''gte'', JNum 18)])])]"
    using age_ranges_run by blast
  show ?thesis
    by (simp add: r a b spec_deep_equal_def equals_def JSON_stringify_def keys_in_order)
qed

end
